theory Spec2Isabelle
  imports Main
begin

section \<open>The entity store (convex/todos.ts, convex/documents.ts, convex/schema.ts)\<close>

text \<open>
  The two tables of \<^verbatim>\<open>schema.ts\<close>. Identifiers are natural numbers, one id space per
  table as \<^verbatim>\<open>v.id("todos")\<close>, \<^verbatim>\<open>v.id("documents")\<close> and \<^verbatim>\<open>v.id("users")\<close> keep them apart;
  \<^verbatim>\<open>v.optional\<close> fields are options; \<^verbatim>\<open>v.number()\<close> fields hold millisecond timestamps
  and are integers. The fields \<^verbatim>\<open>_id\<close>, \<^verbatim>\<open>userId\<close> and \<^verbatim>\<open>drawing\<close> occur in both tables and
  carry the table as a prefix here.
\<close>

record todo =
  todo_id :: nat
  "text" :: string
  description :: "string option"
  completed :: bool
  todo_userId :: nat
  hidden :: bool
  dueDate :: int
  todo_drawing :: "string option"

record document =
  doc_id :: nat
  title :: string
  content :: "string option"
  doc_userId :: nat
  createdAt :: int
  updatedAt :: int
  emoji :: "string option"
  doc_drawing :: "string option"

text \<open>
  Every call on \<^verbatim>\<open>ctx.db\<close> is recorded in \<open>oplog\<close>, oldest first, so that "no read" and
  "no write" are statements about the store. Rows are kept in creation order.
\<close>

datatype table = Users | Todos | Documents

datatype dbop =
    Get table nat
  | Query table nat
  | Insert table nat
  | Patch table nat
  | Delete table nat

record db =
  users :: "nat list"
  todos :: "todo list"
  documents :: "document list"
  nextId :: nat
  oplog :: "dbop list"

text \<open>The request context: \<^verbatim>\<open>getAuthUserId(ctx)\<close> and the server clock \<^verbatim>\<open>Date.now()\<close>.\<close>

record ctx =
  authUserId :: "nat option"
  now :: int

datatype error =
    NotAuthenticated
  | TodoNotFound
  | UserNotFound
  | DocumentNotFound
  | Unauthorized

text \<open>
  \<^verbatim>\<open>today.setHours(0, 0, 0, 0)\<close> and \<^verbatim>\<open>nextDay.setDate(nextDay.getDate() + 1)\<close>, in the
  UTC clock of the server functions.
\<close>

definition msPerDay :: int where
  "msPerDay = 86400000"

definition startOfDay :: "int \<Rightarrow> int" where
  "startOfDay t = t - t mod msPerDay"

definition addDay :: "int \<Rightarrow> int" where
  "addDay t = t + msPerDay"

subsection \<open>ctx.db\<close>

definition logOp :: "dbop \<Rightarrow> db \<Rightarrow> db" where
  "logOp opn d = d\<lparr>oplog := oplog d @ [opn]\<rparr>"

definition getUser :: "nat \<Rightarrow> db \<Rightarrow> nat option \<times> db" where
  "getUser u d = (find (\<lambda>x. x = u) (users d), logOp (Get Users u) d)"

definition getTodo :: "nat \<Rightarrow> db \<Rightarrow> todo option \<times> db" where
  "getTodo i d = (find (\<lambda>t. todo_id t = i) (todos d), logOp (Get Todos i) d)"

definition getDocument :: "nat \<Rightarrow> db \<Rightarrow> document option \<times> db" where
  "getDocument i d = (find (\<lambda>x. doc_id x = i) (documents d), logOp (Get Documents i) d)"

definition queryTodosByUser :: "nat \<Rightarrow> db \<Rightarrow> todo list \<times> db" where
  "queryTodosByUser u d =
     (filter (\<lambda>t. todo_userId t = u) (todos d), logOp (Query Todos u) d)"

definition queryDocumentsByUser :: "nat \<Rightarrow> db \<Rightarrow> document list \<times> db" where
  "queryDocumentsByUser u d =
     (filter (\<lambda>x. doc_userId x = u) (documents d), logOp (Query Documents u) d)"

definition insertTodo :: "(nat \<Rightarrow> todo) \<Rightarrow> db \<Rightarrow> nat \<times> db" where
  "insertTodo mk d =
     (let i = nextId d
      in (i, logOp (Insert Todos i) (d\<lparr>todos := todos d @ [mk i], nextId := Suc i\<rparr>)))"

definition insertDocument :: "(nat \<Rightarrow> document) \<Rightarrow> db \<Rightarrow> nat \<times> db" where
  "insertDocument mk d =
     (let i = nextId d
      in (i, logOp (Insert Documents i)
               (d\<lparr>documents := documents d @ [mk i], nextId := Suc i\<rparr>)))"

definition patchTodo :: "nat \<Rightarrow> (todo \<Rightarrow> todo) \<Rightarrow> db \<Rightarrow> db" where
  "patchTodo i f d =
     logOp (Patch Todos i)
       (d\<lparr>todos := map (\<lambda>t. if todo_id t = i then f t else t) (todos d)\<rparr>)"

definition patchDocument :: "nat \<Rightarrow> (document \<Rightarrow> document) \<Rightarrow> db \<Rightarrow> db" where
  "patchDocument i f d =
     logOp (Patch Documents i)
       (d\<lparr>documents := map (\<lambda>x. if doc_id x = i then f x else x) (documents d)\<rparr>)"

definition deleteTodo :: "nat \<Rightarrow> db \<Rightarrow> db" where
  "deleteTodo i d =
     logOp (Delete Todos i) (d\<lparr>todos := filter (\<lambda>t. todo_id t \<noteq> i) (todos d)\<rparr>)"

definition deleteDocument :: "nat \<Rightarrow> db \<Rightarrow> db" where
  "deleteDocument i d =
     logOp (Delete Documents i)
       (d\<lparr>documents := filter (\<lambda>x. doc_id x \<noteq> i) (documents d)\<rparr>)"

subsection \<open>convex/todos.ts\<close>

text \<open>
  A handler takes the context, its arguments and the store, and returns what it returned
  or threw (\<open>Inl\<close>) together with the store as the handler left it at that point.
  \<^verbatim>\<open>!userId\<close> is the test for \<^verbatim>\<open>null\<close>, and \<^verbatim>\<open>!todo\<close> the test for a missing row.
\<close>

definition todos_list :: "ctx \<Rightarrow> db \<Rightarrow> (error + todo list) \<times> db" where
  "todos_list c d =
     (case authUserId c of
        None \<Rightarrow> (Inr [], d)
      | Some userId \<Rightarrow>
          (let today = startOfDay (now c);
               (rows, d1) = queryTodosByUser userId d
           in (Inr (filter (\<lambda>t. today \<le> dueDate t) rows), d1)))"

definition todos_add :: "ctx \<Rightarrow> string \<Rightarrow> db \<Rightarrow> (error + unit) \<times> db" where
  "todos_add c txt d =
     (case authUserId c of
        None \<Rightarrow> (Inl NotAuthenticated, d)
      | Some userId \<Rightarrow>
          (let today = startOfDay (now c);
               (i, d1) = insertTodo (\<lambda>i. \<lparr>todo_id = i, text = txt, description = Some [],
                            completed = False, todo_userId = userId, hidden = False,
                            dueDate = today, todo_drawing = None\<rparr>) d
           in (Inr (), d1)))"

definition todos_updateDrawing :: "ctx \<Rightarrow> nat \<Rightarrow> string \<Rightarrow> db \<Rightarrow> (error + unit) \<times> db" where
  "todos_updateDrawing c i drawing d =
     (case authUserId c of
        None \<Rightarrow> (Inl NotAuthenticated, d)
      | Some userId \<Rightarrow>
          (let (r, d1) = getTodo i d
           in case r of
                None \<Rightarrow> (Inl TodoNotFound, d1)
              | Some t \<Rightarrow>
                  if todo_userId t \<noteq> userId then (Inl TodoNotFound, d1)
                  else (Inr (), patchTodo i (\<lambda>x. x\<lparr>todo_drawing := Some drawing\<rparr>) d1)))"

definition todos_toggleComplete :: "ctx \<Rightarrow> nat \<Rightarrow> db \<Rightarrow> (error + unit) \<times> db" where
  "todos_toggleComplete c i d =
     (case authUserId c of
        None \<Rightarrow> (Inl NotAuthenticated, d)
      | Some userId \<Rightarrow>
          (let (r, d1) = getTodo i d
           in case r of
                None \<Rightarrow> (Inl TodoNotFound, d1)
              | Some t \<Rightarrow>
                  if todo_userId t \<noteq> userId then (Inl TodoNotFound, d1)
                  else (Inr (), patchTodo i (\<lambda>x. x\<lparr>completed := \<not> completed t\<rparr>) d1)))"

definition todos_updateText :: "ctx \<Rightarrow> nat \<Rightarrow> string \<Rightarrow> db \<Rightarrow> (error + unit) \<times> db" where
  "todos_updateText c i txt d =
     (case authUserId c of
        None \<Rightarrow> (Inl NotAuthenticated, d)
      | Some userId \<Rightarrow>
          (let (r, d1) = getTodo i d
           in case r of
                None \<Rightarrow> (Inl TodoNotFound, d1)
              | Some t \<Rightarrow>
                  if todo_userId t \<noteq> userId then (Inl TodoNotFound, d1)
                  else (Inr (), patchTodo i (\<lambda>x. x\<lparr>text := txt\<rparr>) d1)))"

definition todos_updateDescription :: "ctx \<Rightarrow> nat \<Rightarrow> string \<Rightarrow> db \<Rightarrow> (error + unit) \<times> db" where
  "todos_updateDescription c i descr d =
     (case authUserId c of
        None \<Rightarrow> (Inl NotAuthenticated, d)
      | Some userId \<Rightarrow>
          (let (r, d1) = getTodo i d
           in case r of
                None \<Rightarrow> (Inl TodoNotFound, d1)
              | Some t \<Rightarrow>
                  if todo_userId t \<noteq> userId then (Inl TodoNotFound, d1)
                  else (Inr (), patchTodo i (\<lambda>x. x\<lparr>description := Some descr\<rparr>) d1)))"

definition todos_remove :: "ctx \<Rightarrow> nat \<Rightarrow> db \<Rightarrow> (error + unit) \<times> db" where
  "todos_remove c i d =
     (case authUserId c of
        None \<Rightarrow> (Inl NotAuthenticated, d)
      | Some userId \<Rightarrow>
          (let (r, d1) = getTodo i d
           in case r of
                None \<Rightarrow> (Inl TodoNotFound, d1)
              | Some t \<Rightarrow>
                  if todo_userId t \<noteq> userId then (Inl TodoNotFound, d1)
                  else (Inr (), deleteTodo i d1)))"

definition todos_moveToNextDay :: "ctx \<Rightarrow> nat \<Rightarrow> db \<Rightarrow> (error + unit) \<times> db" where
  "todos_moveToNextDay c i d =
     (case authUserId c of
        None \<Rightarrow> (Inl NotAuthenticated, d)
      | Some userId \<Rightarrow>
          (let (r, d1) = getTodo i d
           in case r of
                None \<Rightarrow> (Inl TodoNotFound, d1)
              | Some t \<Rightarrow>
                  if todo_userId t \<noteq> userId then (Inl TodoNotFound, d1)
                  else (let nextDay = addDay (dueDate t)
                        in (Inr (), patchTodo i (\<lambda>x. x\<lparr>dueDate := nextDay\<rparr>) d1))))"

subsection \<open>convex/documents.ts\<close>

text \<open>
  \<^verbatim>\<open>ctx.db.get(userId)\<close> returns the user row or \<^verbatim>\<open>null\<close>; a user row is its \<^verbatim>\<open>_id\<close>.
  \<^verbatim>\<open>.order("desc")\<close> reverses the creation order.
\<close>

definition documents_list :: "ctx \<Rightarrow> db \<Rightarrow> (error + document list) \<times> db" where
  "documents_list c d =
     (case authUserId c of
        None \<Rightarrow> (Inl NotAuthenticated, d)
      | Some userId \<Rightarrow>
          (let (user, d1) = getUser userId d
           in case user of
                None \<Rightarrow> (Inl UserNotFound, d1)
              | Some user_id \<Rightarrow>
                  (let (rows, d2) = queryDocumentsByUser user_id d1
                   in (Inr (rev rows), d2))))"

definition documents_get :: "ctx \<Rightarrow> nat \<Rightarrow> db \<Rightarrow> (error + document) \<times> db" where
  "documents_get c i d =
     (case authUserId c of
        None \<Rightarrow> (Inl NotAuthenticated, d)
      | Some userId \<Rightarrow>
          (let (r, d1) = getDocument i d
           in case r of
                None \<Rightarrow> (Inl DocumentNotFound, d1)
              | Some doc \<Rightarrow>
                  (let (user, d2) = getUser userId d1
                   in case user of
                        None \<Rightarrow> (Inl Unauthorized, d2)
                      | Some user_id \<Rightarrow>
                          if doc_userId doc \<noteq> user_id then (Inl Unauthorized, d2)
                          else (Inr doc, d2))))"

definition documents_create :: "ctx \<Rightarrow> db \<Rightarrow> (error + nat) \<times> db" where
  "documents_create c d =
     (case authUserId c of
        None \<Rightarrow> (Inl NotAuthenticated, d)
      | Some userId \<Rightarrow>
          (let (user, d1) = getUser userId d
           in case user of
                None \<Rightarrow> (Inl UserNotFound, d1)
              | Some user_id \<Rightarrow>
                  (let (documentId, d2) =
                         insertDocument (\<lambda>i. \<lparr>doc_id = i, title = ''Untitled Document'',
                            content = Some [], doc_userId = user_id, createdAt = now c,
                            updatedAt = now c, emoji = None, doc_drawing = None\<rparr>) d1
                   in (Inr documentId, d2))))"

text \<open>
  \<^verbatim>\<open>update\<close> patches the fields of \<^verbatim>\<open>rest\<close> that the caller passed (the optional arguments
  that are \<open>Some\<close>) and touches \<^verbatim>\<open>updatedAt\<close>.
\<close>

definition documents_update ::
  "ctx \<Rightarrow> nat \<Rightarrow> string option \<Rightarrow> string option \<Rightarrow> string option \<Rightarrow> db
     \<Rightarrow> (error + unit) \<times> db" where
  "documents_update c i ttl cnt emj d =
     (case authUserId c of
        None \<Rightarrow> (Inl NotAuthenticated, d)
      | Some userId \<Rightarrow>
          (let (r, d1) = getDocument i d
           in case r of
                None \<Rightarrow> (Inl DocumentNotFound, d1)
              | Some existingDocument \<Rightarrow>
                  (let (user, d2) = getUser userId d1
                   in case user of
                        None \<Rightarrow> (Inl Unauthorized, d2)
                      | Some user_id \<Rightarrow>
                          if doc_userId existingDocument \<noteq> user_id
                          then (Inl Unauthorized, d2)
                          else (Inr (), patchDocument i
                                 (\<lambda>x. x\<lparr>title := (case ttl of None \<Rightarrow> title x | Some v \<Rightarrow> v),
                                         content := (case cnt of None \<Rightarrow> content x | Some v \<Rightarrow> Some v),
                                         emoji := (case emj of None \<Rightarrow> emoji x | Some v \<Rightarrow> Some v),
                                         updatedAt := now c\<rparr>) d2))))"

definition documents_remove :: "ctx \<Rightarrow> nat \<Rightarrow> db \<Rightarrow> (error + unit) \<times> db" where
  "documents_remove c i d =
     (case authUserId c of
        None \<Rightarrow> (Inl NotAuthenticated, d)
      | Some userId \<Rightarrow>
          (let (r, d1) = getDocument i d
           in case r of
                None \<Rightarrow> (Inl DocumentNotFound, d1)
              | Some existingDocument \<Rightarrow>
                  (let (user, d2) = getUser userId d1
                   in case user of
                        None \<Rightarrow> (Inl Unauthorized, d2)
                      | Some user_id \<Rightarrow>
                          if doc_userId existingDocument \<noteq> user_id
                          then (Inl Unauthorized, d2)
                          else (Inr (), deleteDocument i d2))))"

definition documents_updateDrawing ::
  "ctx \<Rightarrow> nat \<Rightarrow> string \<Rightarrow> db \<Rightarrow> (error + unit) \<times> db" where
  "documents_updateDrawing c i drawing d =
     (case authUserId c of
        None \<Rightarrow> (Inl NotAuthenticated, d)
      | Some userId \<Rightarrow>
          (let (r, d1) = getDocument i d
           in case r of
                None \<Rightarrow> (Inl DocumentNotFound, d1)
              | Some existingDocument \<Rightarrow>
                  (let (user, d2) = getUser userId d1
                   in case user of
                        None \<Rightarrow> (Inl Unauthorized, d2)
                      | Some user_id \<Rightarrow>
                          if doc_userId existingDocument \<noteq> user_id
                          then (Inl Unauthorized, d2)
                          else (Inr (), patchDocument i
                                 (\<lambda>x. x\<lparr>doc_drawing := Some drawing, updatedAt := now c\<rparr>) d2))))"

subsection \<open>Every entity operation\<close>

text \<open>
  The fourteen exported queries and mutations as one type of requests, and what a request
  returns as one type of values, so that a statement can range over all of them.
\<close>

datatype request =
    TodosList
  | TodosAdd string
  | TodosUpdateDrawing nat string
  | TodosToggleComplete nat
  | TodosUpdateText nat string
  | TodosUpdateDescription nat string
  | TodosRemove nat
  | TodosMoveToNextDay nat
  | DocumentsList
  | DocumentsGet nat
  | DocumentsCreate
  | DocumentsUpdate nat "string option" "string option" "string option"
  | DocumentsRemove nat
  | DocumentsUpdateDrawing nat string

datatype response =
    TodoRows "todo list"
  | DocumentRows "document list"
  | DocumentRow document
  | NewId nat
  | Void

definition returning :: "('a \<Rightarrow> response) \<Rightarrow> (error + 'a) \<times> db \<Rightarrow> (error + response) \<times> db" where
  "returning f r = (case r of (Inl e, d) \<Rightarrow> (Inl e, d) | (Inr x, d) \<Rightarrow> (Inr (f x), d))"

fun handle :: "ctx \<Rightarrow> request \<Rightarrow> db \<Rightarrow> (error + response) \<times> db" where
  "handle c TodosList d = returning TodoRows (todos_list c d)"
| "handle c (TodosAdd txt) d = returning (\<lambda>_. Void) (todos_add c txt d)"
| "handle c (TodosUpdateDrawing i s) d = returning (\<lambda>_. Void) (todos_updateDrawing c i s d)"
| "handle c (TodosToggleComplete i) d = returning (\<lambda>_. Void) (todos_toggleComplete c i d)"
| "handle c (TodosUpdateText i s) d = returning (\<lambda>_. Void) (todos_updateText c i s d)"
| "handle c (TodosUpdateDescription i s) d =
     returning (\<lambda>_. Void) (todos_updateDescription c i s d)"
| "handle c (TodosRemove i) d = returning (\<lambda>_. Void) (todos_remove c i d)"
| "handle c (TodosMoveToNextDay i) d = returning (\<lambda>_. Void) (todos_moveToNextDay c i d)"
| "handle c DocumentsList d = returning DocumentRows (documents_list c d)"
| "handle c (DocumentsGet i) d = returning DocumentRow (documents_get c i d)"
| "handle c DocumentsCreate d = returning NewId (documents_create c d)"
| "handle c (DocumentsUpdate i ttl cnt emj) d =
     returning (\<lambda>_. Void) (documents_update c i ttl cnt emj d)"
| "handle c (DocumentsRemove i) d = returning (\<lambda>_. Void) (documents_remove c i d)"
| "handle c (DocumentsUpdateDrawing i s) d =
     returning (\<lambda>_. Void) (documents_updateDrawing c i s d)"

section \<open>The drawing editor session (src/App.tsx, src/components/DocumentEditor.tsx)\<close>

text \<open>
  \<^verbatim>\<open>DrawingEditor\<close> of \<^verbatim>\<open>App.tsx\<close> and \<^verbatim>\<open>DocumentDrawingEditor\<close> of \<^verbatim>\<open>DocumentEditor.tsx\<close> are the
  same component up to the name of the id prop (\<^verbatim>\<open>todoId\<close>, \<^verbatim>\<open>documentId\<close>) and the mutation
  they call (\<^verbatim>\<open>api.todos.updateDrawing\<close>, \<^verbatim>\<open>api.documents.updateDrawing\<close>); one model serves
  both, with the id prop called \<open>entityId\<close>.

  The drawing library and \<^verbatim>\<open>JSON\<close> are outside the repository and are parameters:
  \<^item> \<open>stringify e\<close> is \<^verbatim>\<open>JSON.stringify(editor.store.getSnapshot())\<close> on a store holding \<open>e\<close>;
  \<^item> \<open>jsonParse\<close> is \<^verbatim>\<open>JSON.parse\<close>;
  \<^item> \<open>loadSnapshot j e\<close> is \<^verbatim>\<open>editor.store.loadSnapshot(j)\<close> on a store holding \<open>e\<close>, and a
    call that throws leaves the store as it was.
  Each returns \<open>Inl\<close> of the thrown value when it throws.
\<close>

datatype exn = Exn string

record ('e, 'j) codec =
  stringify :: "'e \<Rightarrow> exn + string"
  jsonParse :: "string \<Rightarrow> exn + 'j"
  loadSnapshot :: "'j \<Rightarrow> 'e \<Rightarrow> exn + 'e"

text \<open>
  What a session does to the world outside the component, oldest first: console output
  (the message; \<^verbatim>\<open>console.error\<close> with the caught value), the result of each serialization,
  each successful \<^verbatim>\<open>loadSnapshot\<close>, each call of the \<^verbatim>\<open>updateDrawing\<close> mutation with its
  arguments, the \<^verbatim>\<open>window.setTimeout\<close> and \<^verbatim>\<open>window.clearTimeout\<close> calls, and each timeout
  callback the browser runs.
\<close>

datatype 'j effect =
    ConsoleLog string
  | ConsoleError string exn
  | Stringified "exn + string"
  | LoadedSnapshot 'j
  | UpdateDrawing nat string
  | SetTimeout nat nat
  | ClearTimeout nat
  | TimeoutFired nat

text \<open>
  The state of one mounted component: what \<^verbatim>\<open>useEditor()\<close> gave (the contents of the editor's
  store, or nothing), the id prop, the three refs, whether the component is mounted and
  whether its \<^verbatim>\<open>change\<close> and \<^verbatim>\<open>blur\<close> listeners are registered, the handle of its interval,
  and the part of \<^verbatim>\<open>window\<close> it uses: a millisecond clock, the pending timeouts as pairs
  of handle and due time, and the last timer handle issued. A ref holding a handle is
  truthy when the handle is not \<open>0\<close>; the handles \<open>setTimeout\<close> issues are positive.
\<close>

record ('e, 'j) session =
  editor :: "'e option"
  entityId :: nat
  debounceTimerRef :: "nat option"
  initialLoadRef :: bool
  snapshotRef :: "string option"
  mounted :: bool
  listening :: bool
  intervalId :: "nat option"
  clock :: nat
  timeouts :: "(nat \<times> nat) list"
  lastHandle :: nat
  history :: "'j effect list"

definition emit :: "'j effect \<Rightarrow> ('e, 'j) session \<Rightarrow> ('e, 'j) session" where
  "emit x s = s\<lparr>history := history s @ [x]\<rparr>"

fun writes :: "'j effect list \<Rightarrow> (nat \<times> string) list" where
  "writes [] = []"
| "writes (UpdateDrawing i snapshot # xs) = (i, snapshot) # writes xs"
| "writes (_ # xs) = writes xs"

fun hydrations :: "'j effect list \<Rightarrow> 'j list" where
  "hydrations [] = []"
| "hydrations (LoadedSnapshot j # xs) = j # hydrations xs"
| "hydrations (_ # xs) = hydrations xs"

fun fired :: "'j effect list \<Rightarrow> nat list" where
  "fired [] = []"
| "fired (TimeoutFired h # xs) = h # fired xs"
| "fired (_ # xs) = fired xs"

fun serializations :: "'j effect list \<Rightarrow> (exn + string) list" where
  "serializations [] = []"
| "serializations (Stringified r # xs) = r # serializations xs"
| "serializations (_ # xs) = serializations xs"

subsection \<open>window timers\<close>

definition setTimeout :: "nat \<Rightarrow> ('e, 'j) session \<Rightarrow> nat \<times> ('e, 'j) session" where
  "setTimeout delay s =
     (let h = Suc (lastHandle s); due = clock s + delay
      in (h, emit (SetTimeout h due) (s\<lparr>timeouts := timeouts s @ [(h, due)], lastHandle := h\<rparr>)))"

definition clearTimeout :: "nat \<Rightarrow> ('e, 'j) session \<Rightarrow> ('e, 'j) session" where
  "clearTimeout h s =
     emit (ClearTimeout h) (s\<lparr>timeouts := filter (\<lambda>p. fst p \<noteq> h) (timeouts s)\<rparr>)"

subsection \<open>The load effect\<close>

text \<open>
  \<^verbatim>\<open>drawingData\<close> is an optional string prop; the empty string is falsy. The \<^verbatim>\<open>try\<close> block
  is \<open>loadTry\<close>: it returns the thrown value, if any, with the session as it was at the
  throw. The \<^verbatim>\<open>catch\<close> block logs.
\<close>

definition loadTry ::
  "('e, 'j) codec \<Rightarrow> 'e \<Rightarrow> string \<Rightarrow> ('e, 'j) session \<Rightarrow> exn option \<times> ('e, 'j) session" where
  "loadTry cd e drawingData s =
     (let s1 = emit (ConsoleLog ''Loading drawing data'') s
      in case jsonParse cd drawingData of
           Inl err \<Rightarrow> (Some err, s1)
         | Inr snapshot \<Rightarrow>
             (case loadSnapshot cd snapshot e of
                Inl err \<Rightarrow> (Some err, s1)
              | Inr e' \<Rightarrow>
                  (None, (emit (LoadedSnapshot snapshot) (s1\<lparr>editor := Some e'\<rparr>))
                           \<lparr>initialLoadRef := True\<rparr>)))"

definition loadEffect ::
  "('e, 'j) codec \<Rightarrow> string option \<Rightarrow> ('e, 'j) session \<Rightarrow> ('e, 'j) session" where
  "loadEffect cd drawingData s =
     (case (editor s, drawingData) of
        (Some e, Some dat) \<Rightarrow>
          if dat \<noteq> [] \<and> \<not> initialLoadRef s
          then (case loadTry cd e dat s of
                  (Some err, s1) \<Rightarrow> emit (ConsoleError ''Failed to load drawing:'' err) s1
                | (None, s1) \<Rightarrow> s1)
          else s
      | _ \<Rightarrow> s)"

subsection \<open>saveDrawing\<close>

definition saveTry ::
  "('e, 'j) codec \<Rightarrow> 'e \<Rightarrow> ('e, 'j) session \<Rightarrow> exn option \<times> ('e, 'j) session" where
  "saveTry cd e s =
     (case stringify cd e of
        Inl err \<Rightarrow> (Some err, emit (Stringified (Inl err)) s)
      | Inr snapshot \<Rightarrow>
          (let s1 = emit (Stringified (Inr snapshot)) s
           in if Some snapshot \<noteq> snapshotRef s1
              then (None, (emit (UpdateDrawing (entityId s1) snapshot)
                             (emit (ConsoleLog ''Saving drawing'') s1))
                            \<lparr>snapshotRef := Some snapshot\<rparr>)
              else (None, s1)))"

definition saveDrawing :: "('e, 'j) codec \<Rightarrow> ('e, 'j) session \<Rightarrow> ('e, 'j) session" where
  "saveDrawing cd s =
     (case editor s of
        None \<Rightarrow> s
      | Some e \<Rightarrow>
          (case saveTry cd e s of
             (Some err, s1) \<Rightarrow> emit (ConsoleError ''Failed to save drawing:'' err) s1
           | (None, s1) \<Rightarrow> s1))"

subsection \<open>The change and blur listeners, the interval, the cleanups\<close>

definition debounceMs :: nat where
  "debounceMs = 300"

definition handleChange :: "('e, 'j) session \<Rightarrow> ('e, 'j) session" where
  "handleChange s =
     (let s1 = (case debounceTimerRef s of
                  None \<Rightarrow> s
                | Some h \<Rightarrow> if h \<noteq> 0 then clearTimeout h s else s);
          (h', s2) = setTimeout debounceMs s1
      in s2\<lparr>debounceTimerRef := Some h'\<rparr>)"

text \<open>The callback given to \<^verbatim>\<open>window.setTimeout\<close> in \<^verbatim>\<open>handleChange\<close>.\<close>

definition debounceCallback :: "('e, 'j) codec \<Rightarrow> ('e, 'j) session \<Rightarrow> ('e, 'j) session" where
  "debounceCallback cd s = (saveDrawing cd s)\<lparr>debounceTimerRef := None\<rparr>"

definition handleBlur :: "('e, 'j) codec \<Rightarrow> ('e, 'j) session \<Rightarrow> ('e, 'j) session" where
  "handleBlur cd s =
     (let s1 = (case debounceTimerRef s of
                  None \<Rightarrow> s
                | Some h \<Rightarrow>
                    if h \<noteq> 0 then (clearTimeout h s)\<lparr>debounceTimerRef := None\<rparr> else s)
      in saveDrawing cd s1)"

text \<open>
  The second effect registers the two listeners when there is an editor, and its cleanup
  removes them, saves, and clears the pending timeout. The third effect starts the
  interval when there is an editor, and its cleanup clears it. A cleanup exists only if
  its effect got past \<^verbatim>\<open>if (!editor) return\<close>.
\<close>

definition listenEffect :: "('e, 'j) session \<Rightarrow> ('e, 'j) session" where
  "listenEffect s = (case editor s of None \<Rightarrow> s | Some _ \<Rightarrow> s\<lparr>listening := True\<rparr>)"

definition listenCleanup :: "('e, 'j) codec \<Rightarrow> ('e, 'j) session \<Rightarrow> ('e, 'j) session" where
  "listenCleanup cd s =
     (if \<not> listening s then s
      else (let s1 = saveDrawing cd (s\<lparr>listening := False\<rparr>)
            in case debounceTimerRef s1 of
                 None \<Rightarrow> s1
               | Some h \<Rightarrow> if h \<noteq> 0 then clearTimeout h s1 else s1))"

definition intervalEffect :: "('e, 'j) session \<Rightarrow> ('e, 'j) session" where
  "intervalEffect s =
     (case editor s of
        None \<Rightarrow> s
      | Some _ \<Rightarrow> (let h = Suc (lastHandle s) in s\<lparr>intervalId := Some h, lastHandle := h\<rparr>))"

definition intervalCleanup :: "('e, 'j) session \<Rightarrow> ('e, 'j) session" where
  "intervalCleanup s = s\<lparr>intervalId := None\<rparr>"

subsection \<open>Mounting, events and time\<close>

text \<open>
  Mounting creates the refs with their initial values and runs the three effects in the
  order of the source. \<open>e0\<close> is what \<^verbatim>\<open>useEditor()\<close> returns: the store of the fresh editor,
  or nothing; \<open>t0\<close> is the time of mounting.
\<close>

definition mount ::
  "('e, 'j) codec \<Rightarrow> 'e option \<Rightarrow> nat \<Rightarrow> string option \<Rightarrow> nat \<Rightarrow> ('e, 'j) session" where
  "mount cd e0 ident drawingData t0 =
     intervalEffect (listenEffect (loadEffect cd drawingData
       \<lparr>editor = e0, entityId = ident, debounceTimerRef = None, initialLoadRef = False,
        snapshotRef = None, mounted = True, listening = False, intervalId = None,
        clock = t0, timeouts = [], lastHandle = 0, history = []\<rparr>))"

definition unmount :: "('e, 'j) codec \<Rightarrow> ('e, 'j) session \<Rightarrow> ('e, 'j) session" where
  "unmount cd s = (intervalCleanup (listenCleanup cd s))\<lparr>mounted := False\<rparr>"

text \<open>
  What can happen to a mounted session: the user edits the drawing (the store then holds
  \<open>e\<close> and the editor emits \<^verbatim>\<open>change\<close>), the window loses focus, the interval of 3000 ms
  elapses, the load effect runs again with the current \<^verbatim>\<open>drawingData\<close> prop, the component
  unmounts. When the interval elapses is left to the environment, as the other events
  are: a run may hold a tick at any time. Nothing happens to a session that is not mounted.
\<close>

datatype 'e event =
    Change 'e
  | Blur
  | IntervalTick
  | LoadEffect "string option"
  | Unmount

definition step :: "('e, 'j) codec \<Rightarrow> 'e event \<Rightarrow> ('e, 'j) session \<Rightarrow> ('e, 'j) session" where
  "step cd ev s =
     (if \<not> mounted s then s
      else case ev of
        Change e \<Rightarrow>
          (case editor s of
             None \<Rightarrow> s
           | Some _ \<Rightarrow> (let s1 = s\<lparr>editor := Some e\<rparr>
                        in if listening s1 then handleChange s1 else s1))
      | Blur \<Rightarrow> if listening s then handleBlur cd s else s
      | IntervalTick \<Rightarrow> if intervalId s \<noteq> None then saveDrawing cd s else s
      | LoadEffect drawingData \<Rightarrow> loadEffect cd drawingData s
      | Unmount \<Rightarrow> unmount cd s)"

text \<open>
  The browser runs the callback of a pending timeout once its due time is reached.
  \<open>advance t\<close> lets time pass up to \<open>t\<close>: the timeouts due by then fire in the order of
  their due times, each at its due time.
\<close>

definition fireTimeout ::
  "('e, 'j) codec \<Rightarrow> nat \<times> nat \<Rightarrow> ('e, 'j) session \<Rightarrow> ('e, 'j) session" where
  "fireTimeout cd p s =
     (if p \<in> set (timeouts s)
      then debounceCallback cd
             (emit (TimeoutFired (fst p))
                (s\<lparr>timeouts := filter (\<lambda>q. fst q \<noteq> fst p) (timeouts s),
                   clock := max (clock s) (snd p)\<rparr>))
      else s)"

definition advance :: "('e, 'j) codec \<Rightarrow> nat \<Rightarrow> ('e, 'j) session \<Rightarrow> ('e, 'j) session" where
  "advance cd t s =
     (let s1 = foldl (\<lambda>x p. fireTimeout cd p x) s
                 (sort_key snd (filter (\<lambda>p. snd p \<le> t) (timeouts s)))
      in s1\<lparr>clock := max (clock s1) t\<rparr>)"

text \<open>An event that happens at time \<open>t\<close>: time passes up to \<open>t\<close>, then the event is handled.\<close>

definition deliver ::
  "('e, 'j) codec \<Rightarrow> nat \<times> 'e event \<Rightarrow> ('e, 'j) session \<Rightarrow> ('e, 'j) session" where
  "deliver cd tev s = step cd (snd tev) (advance cd (fst tev) s)"

fun run ::
  "('e, 'j) codec \<Rightarrow> ('e, 'j) session \<Rightarrow> (nat \<times> 'e event) list \<Rightarrow> ('e, 'j) session" where
  "run cd s [] = s"
| "run cd s (tev # evs) = run cd (deliver cd tev s) evs"

subsection \<open>The views that hold a drawing\<close>

text \<open>
  What \<^verbatim>\<open>DocumentEditor\<close> renders for the document that \<^verbatim>\<open>useQuery(api.documents.get)\<close>
  delivered, after its effect has copied \<^verbatim>\<open>document.title\<close> into the title state: nothing
  but "Loading..." while there is no document; otherwise the title input, the markdown
  editor on \<^verbatim>\<open>document.content ?? ""\<close>, and, when \<^verbatim>\<open>showDrawing\<close> is set, a drawing panel whose
  \<^verbatim>\<open>DocumentDrawingEditor\<close> is mounted with \<^verbatim>\<open>document.drawing\<close>.
\<close>

record ('e, 'j) documentView =
  titleInput :: string
  markdown :: string
  drawingPanel :: "('e, 'j) session option"

definition DocumentEditor ::
  "('e, 'j) codec \<Rightarrow> 'e option \<Rightarrow> nat \<Rightarrow> document option \<Rightarrow> bool
     \<Rightarrow> ('e, 'j) documentView option" where
  "DocumentEditor cd e0 t0 doc showDrawing =
     (case doc of
        None \<Rightarrow> None
      | Some d \<Rightarrow>
          Some \<lparr>titleInput = title d,
                markdown = (case content d of None \<Rightarrow> [] | Some c \<Rightarrow> c),
                drawingPanel =
                  (if showDrawing then Some (mount cd e0 (doc_id d) (doc_drawing d) t0)
                   else None)\<rparr>)"

text \<open>
  One list item of \<^verbatim>\<open>TodoContent\<close>: the checkbox, the text (the edit field while the item is
  being edited), the description editor on \<^verbatim>\<open>todo.description ?? ""\<close> when the item is
  expanded, and the drawing panel when \<^verbatim>\<open>showDrawing\<close> is the item's id.
\<close>

record ('e, 'j) todoView =
  checkbox :: bool
  label :: string
  descriptionEditor :: "string option"
  todoDrawingPanel :: "('e, 'j) session option"

definition TodoItem ::
  "('e, 'j) codec \<Rightarrow> 'e option \<Rightarrow> nat \<Rightarrow> nat option \<Rightarrow> string \<Rightarrow> nat option \<Rightarrow> nat option
     \<Rightarrow> todo \<Rightarrow> ('e, 'j) todoView" where
  "TodoItem cd e0 t0 editingId editText expandedTodo showDrawing t =
     \<lparr>checkbox = completed t,
      label = (if editingId = Some (todo_id t) then editText else text t),
      descriptionEditor =
        (if expandedTodo = Some (todo_id t)
         then Some (case description t of None \<Rightarrow> [] | Some c \<Rightarrow> c) else None),
      todoDrawingPanel =
        (if showDrawing = Some (todo_id t)
         then Some (mount cd e0 (todo_id t) (todo_drawing t) t0) else None)\<rparr>"

section \<open>Concrete inputs\<close>

text \<open>
  A store with two users; user \<open>1\<close> owns one todo and one document, each with a stored
  drawing. A request context without identity, and one per signed-in user.
\<close>

definition demoTodo :: todo where
  "demoTodo =
     \<lparr>todo_id = 10, text = ''buy milk'', description = Some [], completed = False,
      todo_userId = 1, hidden = False, dueDate = 0, todo_drawing = Some ''old''\<rparr>"

definition demoDocument :: document where
  "demoDocument =
     \<lparr>doc_id = 20, title = ''notes'', content = Some ''hello'', doc_userId = 1,
      createdAt = 0, updatedAt = 0, emoji = None, doc_drawing = Some ''old''\<rparr>"

definition demoDb :: db where
  "demoDb =
     \<lparr>users = [1, 2], todos = [demoTodo], documents = [demoDocument],
      nextId = 30, oplog = []\<rparr>"

definition anonymous :: ctx where
  "anonymous = \<lparr>authUserId = None, now = 1000\<rparr>"

definition asUser :: "nat \<Rightarrow> ctx" where
  "asUser u = \<lparr>authUserId = Some u, now = 1000\<rparr>"

text \<open>
  A codec on stores that are strings: a store serializes to itself, except the store
  \<open>''cyclic''\<close>, whose serialization throws; every string parses to itself, except \<open>''{''\<close>,
  whose parsing throws; loading a snapshot replaces the store.
\<close>

definition demoCodec :: "(string, string) codec" where
  "demoCodec =
     \<lparr>stringify = (\<lambda>e. if e = ''cyclic'' then Inl (Exn ''TypeError'') else Inr e),
      jsonParse = (\<lambda>x. if x = ''{'' then Inl (Exn ''SyntaxError'') else Inr x),
      loadSnapshot = (\<lambda>j e. Inr j)\<rparr>"

text \<open>
  Sessions on entity \<open>10\<close>, mounted at time \<open>0\<close> on a blank editor: with no stored drawing;
  the same after the first tick of the interval; with the stored drawing \<open>''stored''\<close> and a
  second run of the load effect; with the unparsable stored drawing \<open>''{''\<close>.
\<close>

definition demoSession :: "(string, string) session" where
  "demoSession = mount demoCodec (Some ''blank'') 10 None 0"

definition demoSaved :: "(string, string) session" where
  "demoSaved = run demoCodec demoSession [(3000, IntervalTick)]"

definition demoLoaded :: "(string, string) session" where
  "demoLoaded =
     run demoCodec (mount demoCodec (Some ''blank'') 10 (Some ''stored'') 0)
       [(100, LoadEffect (Some ''stored''))]"

definition demoCorrupt :: "(string, string) session" where
  "demoCorrupt = mount demoCodec (Some ''blank'') 10 (Some ''{'') 0"

text \<open>The first session after an edit, at time \<open>10\<close>, to a store that cannot be serialized.\<close>

definition demoCyclic :: "(string, string) session" where
  "demoCyclic = run demoCodec demoSession [(10, Change ''cyclic'')]"

text \<open>
  The first session after one edit at time \<open>10\<close>; after an edit at \<open>2900\<close> and the tick of
  the interval at \<open>3000\<close>; and after the edit at \<open>2900\<close> followed by the events of \<open>demoBurst\<close>.
\<close>

definition demoEdited :: "(string, string) session" where
  "demoEdited = run demoCodec demoSession [(10, Change ''a'')]"

definition demoPending :: "(string, string) session" where
  "demoPending = run demoCodec demoSession [(2900, Change ''a''), (3000, IntervalTick)]"

definition demoBurst :: "(nat \<times> string event) list" where
  "demoBurst = [(3000, IntervalTick), (3100, Change ''ab''), (3350, Change ''abc'')]"

definition demoBurstEnd :: "(string, string) session" where
  "demoBurstEnd = run demoCodec demoSession ((2900, Change ''a'') # demoBurst)"

text \<open>The todo and the document of \<open>demoDb\<close> with an unparsable stored drawing.\<close>

definition demoCorruptTodo :: todo where
  "demoCorruptTodo = demoTodo\<lparr>todo_drawing := Some ''{''\<rparr>"

definition demoCorruptDocument :: document where
  "demoCorruptDocument = demoDocument\<lparr>doc_drawing := Some ''{''\<rparr>"

section \<open>Bursts of edits\<close>

text \<open>
  \<open>burst cur lastChange evs\<close>: the events \<open>evs\<close>, the last one before them at time \<open>cur\<close> and
  the last edit before them at time \<open>lastChange\<close>, are in the order of their times, each is
  an edit or a tick of the interval, and each happens less than the debounce delay after
  the edit before it. \<open>lastEdit\<close> is the time and the store of the last edit.
\<close>

fun lastEdit :: "nat \<times> 'e \<Rightarrow> (nat \<times> 'e event) list \<Rightarrow> nat \<times> 'e" where
  "lastEdit x [] = x"
| "lastEdit x ((t, Change e) # evs) = lastEdit (t, e) evs"
| "lastEdit x (_ # evs) = lastEdit x evs"

fun burst :: "nat \<Rightarrow> nat \<Rightarrow> (nat \<times> 'e event) list \<Rightarrow> bool" where
  "burst cur lastChange [] = True"
| "burst cur lastChange ((t, ev) # evs) =
     (cur \<le> t \<and> t < lastChange + debounceMs \<and>
      (case ev of
         Change e \<Rightarrow> burst t t evs
       | IntervalTick \<Rightarrow> burst t lastChange evs
       | _ \<Rightarrow> False))"

section \<open>Invariants of a session\<close>

text \<open>Some serialization of the session has succeeded.\<close>

definition everSerialized :: "('e, 'j) session \<Rightarrow> bool" where
  "everSerialized s = (\<exists>snapshot. Inr snapshot \<in> set (serializations (history s)))"

text \<open>
  Until a serialization succeeds, \<open>snapshotRef\<close> is still \<^verbatim>\<open>null\<close> and nothing has been
  written; the id prop never changes.
\<close>

definition unsaved :: "nat \<Rightarrow> ('e, 'j) session \<Rightarrow> bool" where
  "unsaved ident s \<longleftrightarrow>
     entityId s = ident \<and> (snapshotRef s = None \<and> writes (history s) = [] \<or> everSerialized s)"

text \<open>\<open>initialLoadRef\<close> is set exactly when the editor has been hydrated, and then once.\<close>

definition hydratedOnce :: "('e, 'j) session \<Rightarrow> bool" where
  "hydratedOnce s \<longleftrightarrow>
     length (hydrations (history s)) = (if initialLoadRef s then 1 else 0)"

text \<open>
  The listeners are registered exactly while the component is mounted on an editor, and
  at most one timeout is pending: the one whose handle \<open>debounceTimerRef\<close> holds.
\<close>

definition timersOk :: "('e, 'j) session \<Rightarrow> bool" where
  "timersOk s \<longleftrightarrow>
     listening s = (mounted s \<and> editor s \<noteq> None) \<and>
     (case timeouts s of
        [] \<Rightarrow> True
      | [p] \<Rightarrow> debounceTimerRef s = Some (fst p) \<and> fst p \<noteq> 0 \<and> listening s
      | _ \<Rightarrow> False)"

section \<open>Lemmas\<close>

subsection \<open>The history\<close>

lemma writes_append: "writes (xs @ ys) = writes xs @ writes ys"
  by (induction xs rule: writes.induct) simp_all

lemma hydrations_append: "hydrations (xs @ ys) = hydrations xs @ hydrations ys"
  by (induction xs rule: hydrations.induct) simp_all

lemma fired_append: "fired (xs @ ys) = fired xs @ fired ys"
  by (induction xs rule: fired.induct) simp_all

lemma serializations_append: "serializations (xs @ ys) = serializations xs @ serializations ys"
  by (induction xs rule: serializations.induct) simp_all

subsection \<open>saveDrawing and the load effect, branch by branch\<close>

lemma saveDrawing_eq:
  "saveDrawing cd s =
     (case editor s of
        None \<Rightarrow> s
      | Some e \<Rightarrow>
          (case stringify cd e of
             Inl err \<Rightarrow>
               s\<lparr>history := history s @
                    [Stringified (Inl err), ConsoleError ''Failed to save drawing:'' err]\<rparr>
           | Inr snapshot \<Rightarrow>
               if Some snapshot \<noteq> snapshotRef s
               then s\<lparr>history := history s @
                         [Stringified (Inr snapshot), ConsoleLog ''Saving drawing'',
                          UpdateDrawing (entityId s) snapshot],
                       snapshotRef := Some snapshot\<rparr>
               else s\<lparr>history := history s @ [Stringified (Inr snapshot)]\<rparr>))"
  by (simp add: saveDrawing_def saveTry_def emit_def Let_def split: option.splits sum.splits)

lemma saveDrawing_frame:
  "editor (saveDrawing cd s) = editor s"
  "entityId (saveDrawing cd s) = entityId s"
  "debounceTimerRef (saveDrawing cd s) = debounceTimerRef s"
  "initialLoadRef (saveDrawing cd s) = initialLoadRef s"
  "mounted (saveDrawing cd s) = mounted s"
  "listening (saveDrawing cd s) = listening s"
  "intervalId (saveDrawing cd s) = intervalId s"
  "clock (saveDrawing cd s) = clock s"
  "timeouts (saveDrawing cd s) = timeouts s"
  "lastHandle (saveDrawing cd s) = lastHandle s"
  by (simp_all add: saveDrawing_eq split: option.splits sum.splits)

lemma saveDrawing_update:
  "saveDrawing cd (s\<lparr>clock := c\<rparr>) = (saveDrawing cd s)\<lparr>clock := c\<rparr>"
  "saveDrawing cd (s\<lparr>listening := b\<rparr>) = (saveDrawing cd s)\<lparr>listening := b\<rparr>"
  "saveDrawing cd (s\<lparr>timeouts := ts\<rparr>) = (saveDrawing cd s)\<lparr>timeouts := ts\<rparr>"
  by (simp_all add: saveDrawing_eq split: option.splits sum.splits)

lemma saveDrawing_serializations:
  "editor s = Some e \<Longrightarrow>
   serializations (history (saveDrawing cd s)) = serializations (history s) @ [stringify cd e]"
  by (simp add: saveDrawing_eq serializations_append split: sum.splits)

lemma saveDrawing_writes:
  "editor s = Some e \<Longrightarrow>
   writes (history (saveDrawing cd s)) =
     writes (history s) @
       (case stringify cd e of
          Inl err \<Rightarrow> []
        | Inr snapshot \<Rightarrow>
            if Some snapshot \<noteq> snapshotRef s then [(entityId s, snapshot)] else [])"
  by (simp add: saveDrawing_eq writes_append split: sum.splits)

lemma saveDrawing_fired: "fired (history (saveDrawing cd s)) = fired (history s)"
  by (simp add: saveDrawing_eq fired_append split: option.splits sum.splits)

lemma loadEffect_eq:
  "loadEffect cd drawingData s =
     (case editor s of
        None \<Rightarrow> s
      | Some e \<Rightarrow>
          (case drawingData of
             None \<Rightarrow> s
           | Some dat \<Rightarrow>
               if dat \<noteq> [] \<and> \<not> initialLoadRef s
               then (case jsonParse cd dat of
                       Inl err \<Rightarrow>
                         s\<lparr>history := history s @
                              [ConsoleLog ''Loading drawing data'',
                               ConsoleError ''Failed to load drawing:'' err]\<rparr>
                     | Inr j \<Rightarrow>
                         (case loadSnapshot cd j e of
                            Inl err \<Rightarrow>
                              s\<lparr>history := history s @
                                   [ConsoleLog ''Loading drawing data'',
                                    ConsoleError ''Failed to load drawing:'' err]\<rparr>
                          | Inr e' \<Rightarrow>
                              s\<lparr>editor := Some e', initialLoadRef := True,
                                history := history s @
                                   [ConsoleLog ''Loading drawing data'', LoadedSnapshot j]\<rparr>))
               else s))"
  by (simp add: loadEffect_def loadTry_def emit_def Let_def split: option.splits sum.splits)

lemma loadEffect_frame:
  "entityId (loadEffect cd dd s) = entityId s"
  "debounceTimerRef (loadEffect cd dd s) = debounceTimerRef s"
  "snapshotRef (loadEffect cd dd s) = snapshotRef s"
  "mounted (loadEffect cd dd s) = mounted s"
  "listening (loadEffect cd dd s) = listening s"
  "intervalId (loadEffect cd dd s) = intervalId s"
  "clock (loadEffect cd dd s) = clock s"
  "timeouts (loadEffect cd dd s) = timeouts s"
  "lastHandle (loadEffect cd dd s) = lastHandle s"
  "(editor (loadEffect cd dd s) = None) = (editor s = None)"
  by (simp_all add: loadEffect_eq split: option.splits sum.splits)

lemma loadEffect_loaded: "initialLoadRef s \<Longrightarrow> loadEffect cd dd s = s"
  by (simp add: loadEffect_eq split: option.splits)

lemma loadEffect_parse_fails:
  assumes "editor s = Some e" and "dat \<noteq> []" and "\<not> initialLoadRef s"
    and "jsonParse cd dat = Inl err"
  shows "loadEffect cd (Some dat) s =
           s\<lparr>history := history s @
                [ConsoleLog ''Loading drawing data'', ConsoleError ''Failed to load drawing:'' err]\<rparr>"
  using assms by (simp add: loadEffect_eq)

lemma concat_replicate_commute: "concat (replicate n x) @ x = x @ concat (replicate n x)"
  by (induction n) simp_all

lemma loadEffect_parse_fails_funpow:
  assumes "editor s = Some e" and "dat \<noteq> []" and "\<not> initialLoadRef s"
    and "jsonParse cd dat = Inl err"
  shows "(loadEffect cd (Some dat) ^^ n) s =
           s\<lparr>history := history s @
                concat (replicate n [ConsoleLog ''Loading drawing data'',
                                     ConsoleError ''Failed to load drawing:'' err])\<rparr>"
proof (induction n)
  case 0
  show ?case by simp
next
  case (Suc n)
  let ?x = "[ConsoleLog ''Loading drawing data'', ConsoleError ''Failed to load drawing:'' err]"
  let ?s = "s\<lparr>history := history s @ concat (replicate n ?x)\<rparr>"
  have "editor ?s = Some e" and "\<not> initialLoadRef ?s"
    using assms by simp_all
  then have again: "loadEffect cd (Some dat) ?s = ?s\<lparr>history := history ?s @ ?x\<rparr>"
    using assms(2,4) by (simp add: loadEffect_parse_fails)
  have more: "concat (replicate (Suc n) ?x) = concat (replicate n ?x) @ ?x"
    by (simp add: concat_replicate_commute)
  show ?case
    unfolding funpow.simps o_apply Suc.IH again more by simp
qed

lemma loadEffect_retry_grows:
  assumes "editor s = Some e" and "dat \<noteq> []"
    and "\<not> initialLoadRef (loadEffect cd (Some dat) s)"
  shows "length (history (loadEffect cd (Some dat) (loadEffect cd (Some dat) s))) =
           length (history (loadEffect cd (Some dat) s)) + 2"
  using assms by (auto simp: loadEffect_eq split: sum.splits if_splits)

subsection \<open>Invariants of every run\<close>

lemmas op_defs =
  step_def handleChange_def handleBlur_def unmount_def listenCleanup_def intervalCleanup_def
  clearTimeout_def setTimeout_def emit_def debounceCallback_def fireTimeout_def

text \<open>
  A property kept by every event, by every timeout callback and by the passing of time
  holds along every run.
\<close>

lemma run_invariant:
  assumes "\<And>ev s. P s \<Longrightarrow> P (step cd ev s)"
    and "\<And>p s. P s \<Longrightarrow> P (fireTimeout cd p s)"
    and "\<And>t s. P s \<Longrightarrow> P (s\<lparr>clock := t\<rparr>)"
    and "P s"
  shows "P (run cd s evs)"
  using assms(4)
proof (induction evs arbitrary: s)
  case Nil
  then show ?case by simp
next
  case (Cons tev evs)
  have fold: "P (foldl (\<lambda>x p. fireTimeout cd p x) x ps)" if "P x" for x ps
    using that by (induction ps arbitrary: x) (simp_all add: assms(2))
  have "P (advance cd (fst tev) s)"
    unfolding advance_def Let_def by (rule assms(3)) (rule fold, rule Cons.prems)
  then have "P (deliver cd tev s)"
    unfolding deliver_def by (rule assms(1))
  then show ?case by (simp add: Cons.IH)
qed

lemma unsaved_step: "unsaved ident s \<Longrightarrow> unsaved ident (step cd ev s)"
  unfolding unsaved_def
  by (cases ev)
    (auto simp: op_defs saveDrawing_eq loadEffect_eq everSerialized_def serializations_append
      writes_append Let_def split: option.splits sum.splits if_splits)

lemma unsaved_fire: "unsaved ident s \<Longrightarrow> unsaved ident (fireTimeout cd p s)"
  unfolding unsaved_def
  by (auto simp: op_defs saveDrawing_eq everSerialized_def serializations_append
      writes_append Let_def split: option.splits sum.splits if_splits)

lemma unsaved_mount: "unsaved ident (mount cd e0 ident drawingData t0)"
  unfolding unsaved_def
  by (auto simp: mount_def intervalEffect_def listenEffect_def loadEffect_eq everSerialized_def
      Let_def split: option.splits sum.splits)

lemma unsaved_run: "unsaved ident (run cd (mount cd e0 ident drawingData t0) evs)"
  by (rule run_invariant)
    (simp_all add: unsaved_step unsaved_fire unsaved_mount,
      simp add: unsaved_def everSerialized_def)

lemma hydratedOnce_step: "hydratedOnce s \<Longrightarrow> hydratedOnce (step cd ev s)"
  unfolding hydratedOnce_def
  by (cases ev)
    (auto simp: op_defs saveDrawing_eq loadEffect_eq hydrations_append
      Let_def split: option.splits sum.splits if_splits)

lemma hydratedOnce_fire: "hydratedOnce s \<Longrightarrow> hydratedOnce (fireTimeout cd p s)"
  unfolding hydratedOnce_def
  by (auto simp: op_defs saveDrawing_eq hydrations_append
      Let_def split: option.splits sum.splits if_splits)

lemma hydratedOnce_mount: "hydratedOnce (mount cd e0 ident drawingData t0)"
  unfolding hydratedOnce_def
  by (auto simp: mount_def intervalEffect_def listenEffect_def loadEffect_eq
      Let_def split: option.splits sum.splits)

lemma hydratedOnce_run: "hydratedOnce (run cd (mount cd e0 ident drawingData t0) evs)"
  by (rule run_invariant)
    (simp_all add: hydratedOnce_step hydratedOnce_fire hydratedOnce_mount,
      simp add: hydratedOnce_def)

lemma timersOk_step: "timersOk s \<Longrightarrow> timersOk (step cd ev s)"
  unfolding timersOk_def
  by (cases ev)
    (auto simp: op_defs saveDrawing_frame loadEffect_frame Let_def
      simp del: not_None_eq split: option.splits list.splits if_splits)

lemma timersOk_fire: "timersOk s \<Longrightarrow> timersOk (fireTimeout cd p s)"
  unfolding timersOk_def
  by (auto simp: op_defs saveDrawing_frame Let_def split: option.splits list.splits if_splits)

lemma timersOk_mount: "timersOk (mount cd e0 ident drawingData t0)"
  unfolding timersOk_def
  by (auto simp: mount_def intervalEffect_def listenEffect_def loadEffect_frame
      Let_def split: option.splits)

lemma timersOk_run: "timersOk (run cd (mount cd e0 ident drawingData t0) evs)"
  by (rule run_invariant)
    (simp_all add: timersOk_step timersOk_fire timersOk_mount,
      auto simp: timersOk_def split: list.splits)

lemma timersOk_pending:
  assumes "timersOk s" and "(h, due) \<in> set (timeouts s)"
  shows "timeouts s = [(h, due)]" and "debounceTimerRef s = Some h" and "h \<noteq> 0"
    and "listening s" and "mounted s" and "editor s \<noteq> None"
  using assms by (auto simp: timersOk_def split: list.splits)

lemma timersOk_clock: "timersOk (s\<lparr>clock := t\<rparr>) = timersOk s"
  by (auto simp: timersOk_def split: list.splits)

lemma timersOk_deliver:
  assumes "timersOk s"
  shows "timersOk (deliver cd tev s)"
proof -
  have "timersOk (run cd s [tev])"
    by (rule run_invariant [where P = timersOk])
      (simp_all add: timersOk_step timersOk_fire timersOk_clock assms)
  then show ?thesis by simp
qed

lemma run_unmounted:
  assumes "\<not> mounted s" and "timeouts s = []"
  shows "history (run cd s evs) = history s"
proof -
  let ?P = "\<lambda>x. \<not> mounted x \<and> timeouts x = [] \<and> history x = history s"
  have "?P (run cd s evs)"
    by (rule run_invariant [where P = ?P]) (simp_all add: step_def fireTimeout_def assms)
  then show ?thesis by simp
qed

subsection \<open>Time and bursts\<close>

lemma advance_idle:
  assumes "\<forall>p \<in> set (timeouts s). t < snd p"
  shows "advance cd t s = s\<lparr>clock := max (clock s) t\<rparr>"
proof -
  have "filter (\<lambda>p. snd p \<le> t) (timeouts s) = []"
    using assms by (auto simp: filter_empty_conv)
  then show ?thesis by (simp add: advance_def)
qed

lemma advance_fire:
  assumes "timeouts s = [(h, due)]" and "due \<le> t"
  shows "advance cd t s =
           (debounceCallback cd
              (emit (TimeoutFired h) (s\<lparr>timeouts := [], clock := max (clock s) due\<rparr>)))
           \<lparr>clock := max (max (clock s) due) t\<rparr>"
  using assms
  by (simp add: advance_def fireTimeout_def debounceCallback_def emit_def saveDrawing_frame)


lemma advance_frame:
  assumes "timersOk s"
  shows "timersOk (advance cd t s) \<and> mounted (advance cd t s) = mounted s
       \<and> editor (advance cd t s) = editor s \<and> lastHandle (advance cd t s) = lastHandle s
       \<and> (clock s \<le> t \<longrightarrow> clock (advance cd t s) = t)"
proof -
  have "advance cd t s = deliver cd (t, LoadEffect None) s"
    by (simp add: deliver_def step_def loadEffect_eq split: option.splits)
  then have ok: "timersOk (advance cd t s)"
    using assms by (simp add: timersOk_deliver)
  have "mounted (advance cd t s) = mounted s
       \<and> editor (advance cd t s) = editor s \<and> lastHandle (advance cd t s) = lastHandle s
       \<and> (clock s \<le> t \<longrightarrow> clock (advance cd t s) = t)"
  proof (cases "timeouts s")
    case Nil
    then show ?thesis by (simp add: advance_idle)
  next
    case (Cons p ps)
    with assms obtain h due where one: "timeouts s = [(h, due)]"
      by (cases p) (auto simp: timersOk_def split: list.splits)
    show ?thesis
    proof (cases "due \<le> t")
      case True
      with one show ?thesis
        by (simp add: advance_fire debounceCallback_def emit_def saveDrawing_frame)
    next
      case False
      with one show ?thesis by (simp add: advance_idle)
    qed
  qed
  with ok show ?thesis by simp
qed

lemma handleChange_replaces:
  assumes "timersOk s"
  shows "timeouts (handleChange (s\<lparr>editor := Some e\<rparr>)) =
           [(Suc (lastHandle s), clock s + debounceMs)]"
    and "editor (handleChange (s\<lparr>editor := Some e\<rparr>)) = Some e"
    and "clock (handleChange (s\<lparr>editor := Some e\<rparr>)) = clock s"
    and "fired (history (handleChange (s\<lparr>editor := Some e\<rparr>))) = fired (history s)"
  using assms
  by (auto simp: timersOk_def handleChange_def clearTimeout_def setTimeout_def emit_def Let_def
      fired_append split: option.splits list.splits)

lemma burst_run:
  assumes "timersOk s" and "timeouts s = [(h, lastChange + debounceMs)]"
    and "editor s = Some e" and "clock s \<le> cur" and "burst cur lastChange evs"
  shows "timersOk (run cd s evs)
       \<and> fired (history (run cd s evs)) = fired (history s)
       \<and> editor (run cd s evs) = Some (snd (lastEdit (lastChange, e) evs))
       \<and> (\<exists>h'. timeouts (run cd s evs) =
                  [(h', fst (lastEdit (lastChange, e) evs) + debounceMs)])"
  using assms
proof (induction evs arbitrary: s h lastChange e cur)
  case Nil
  then show ?case by simp
next
  case (Cons tev evs)
  obtain t ev where tev: "tev = (t, ev)"
    by (cases tev)
  from Cons.prems(5) have t: "cur \<le> t" "t < lastChange + debounceMs"
    by (simp_all add: tev)
  from Cons.prems(1,2) have live: "listening s" "mounted s" "debounceTimerRef s = Some h" "h \<noteq> 0"
    by (auto simp: timersOk_def)
  have idle: "advance cd t s = s\<lparr>clock := t\<rparr>"
    using t Cons.prems(2,4) by (simp add: advance_idle max_def)
  have ok: "timersOk (deliver cd tev s)"
    using Cons.prems(1) by (rule timersOk_deliver)
  show ?case
  proof (cases ev)
    case (Change e')
    let ?s = "deliver cd tev s"
    have next_burst: "burst t t evs"
      using Cons.prems(5) by (simp add: tev Change)
    have s': "timeouts ?s = [(Suc (lastHandle s), t + debounceMs)]" "editor ?s = Some e'"
      "clock ?s = t" "fired (history ?s) = fired (history s)"
      using live Cons.prems(1,3) handleChange_replaces [of "s\<lparr>clock := t\<rparr>" e']
      by (simp_all add: tev Change deliver_def idle step_def timersOk_clock)
    from Cons.IH [OF ok s'(1,2) _ next_burst] s'(3,4)
    show ?thesis by (simp add: tev Change)
  next
    case IntervalTick
    let ?s = "deliver cd tev s"
    have next_burst: "burst t lastChange evs"
      using Cons.prems(5) by (simp add: tev IntervalTick)
    have s': "timeouts ?s = [(h, lastChange + debounceMs)]" "editor ?s = Some e"
      "clock ?s = t" "fired (history ?s) = fired (history s)"
      using live Cons.prems(2,3)
      by (simp_all add: tev IntervalTick deliver_def idle step_def saveDrawing_frame
          saveDrawing_fired)
    from Cons.IH [OF ok s'(1,2) _ next_burst] s'(3,4)
    show ?thesis by (simp add: tev IntervalTick)
  qed (use Cons.prems(5) in \<open>simp_all add: tev\<close>)
qed

subsection \<open>The concrete sessions, evaluated\<close>

lemma demoSession_eq:
  "demoSession =
     \<lparr>editor = Some ''blank'', entityId = 10, debounceTimerRef = None, initialLoadRef = False,
      snapshotRef = None, mounted = True, listening = True, intervalId = Some 1, clock = 0,
      timeouts = [], lastHandle = 1, history = []\<rparr>"
  by (simp add: demoSession_def mount_def intervalEffect_def listenEffect_def loadEffect_eq)

lemma demoSaved_eq:
  "demoSaved =
     \<lparr>editor = Some ''blank'', entityId = 10, debounceTimerRef = None, initialLoadRef = False,
      snapshotRef = Some ''blank'', mounted = True, listening = True, intervalId = Some 1,
      clock = 3000, timeouts = [], lastHandle = 1,
      history = [Stringified (Inr ''blank''), ConsoleLog ''Saving drawing'',
                 UpdateDrawing 10 ''blank'']\<rparr>"
  by (simp add: demoSaved_def demoSession_eq demoCodec_def deliver_def advance_def step_def
      saveDrawing_eq)

lemma demoLoaded_eq:
  "demoLoaded =
     \<lparr>editor = Some ''stored'', entityId = 10, debounceTimerRef = None, initialLoadRef = True,
      snapshotRef = None, mounted = True, listening = True, intervalId = Some 1, clock = 100,
      timeouts = [], lastHandle = 1,
      history = [ConsoleLog ''Loading drawing data'', LoadedSnapshot ''stored'']\<rparr>"
  by (simp add: demoLoaded_def demoCodec_def mount_def intervalEffect_def listenEffect_def
      loadEffect_eq deliver_def advance_def step_def)

lemma demoCorrupt_eq:
  "demoCorrupt =
     \<lparr>editor = Some ''blank'', entityId = 10, debounceTimerRef = None, initialLoadRef = False,
      snapshotRef = None, mounted = True, listening = True, intervalId = Some 1, clock = 0,
      timeouts = [], lastHandle = 1,
      history = [ConsoleLog ''Loading drawing data'',
                 ConsoleError ''Failed to load drawing:'' (Exn ''SyntaxError'')]\<rparr>"
  by (simp add: demoCorrupt_def demoCodec_def mount_def intervalEffect_def listenEffect_def
      loadEffect_eq)

lemma demoCyclic_eq:
  "demoCyclic =
     \<lparr>editor = Some ''cyclic'', entityId = 10, debounceTimerRef = Some 2,
      initialLoadRef = False, snapshotRef = None, mounted = True, listening = True,
      intervalId = Some 1, clock = 10, timeouts = [(2, 310)], lastHandle = 2,
      history = [SetTimeout 2 310]\<rparr>"
  by (simp add: demoCyclic_def demoSession_eq deliver_def advance_def step_def handleChange_def
      setTimeout_def emit_def debounceMs_def)

lemma demoEdited_eq:
  "demoEdited =
     \<lparr>editor = Some ''a'', entityId = 10, debounceTimerRef = Some 2,
      initialLoadRef = False, snapshotRef = None, mounted = True, listening = True,
      intervalId = Some 1, clock = 10, timeouts = [(2, 310)], lastHandle = 2,
      history = [SetTimeout 2 310]\<rparr>"
  by (simp add: demoEdited_def demoSession_eq deliver_def advance_def step_def handleChange_def
      setTimeout_def emit_def debounceMs_def)

lemma demoPending_eq:
  "demoPending =
     \<lparr>editor = Some ''a'', entityId = 10, debounceTimerRef = Some 2, initialLoadRef = False,
      snapshotRef = Some ''a'', mounted = True, listening = True, intervalId = Some 1,
      clock = 3000, timeouts = [(2, 3200)], lastHandle = 2,
      history = [SetTimeout 2 3200, Stringified (Inr ''a''), ConsoleLog ''Saving drawing'',
                 UpdateDrawing 10 ''a'']\<rparr>"
  by (simp add: demoPending_def demoSession_eq demoCodec_def deliver_def advance_def step_def
      handleChange_def setTimeout_def emit_def debounceMs_def saveDrawing_eq)

lemma demoBurstEnd_eq:
  "demoBurstEnd =
     \<lparr>editor = Some ''abc'', entityId = 10, debounceTimerRef = Some 4, initialLoadRef = False,
      snapshotRef = Some ''a'', mounted = True, listening = True, intervalId = Some 1,
      clock = 3350, timeouts = [(4, 3650)], lastHandle = 4,
      history = [SetTimeout 2 3200, Stringified (Inr ''a''), ConsoleLog ''Saving drawing'',
                 UpdateDrawing 10 ''a'', ClearTimeout 2, SetTimeout 3 3400, ClearTimeout 3,
                 SetTimeout 4 3650]\<rparr>"
  by (simp add: demoBurstEnd_def demoBurst_def demoSession_eq demoCodec_def deliver_def
      advance_def step_def handleChange_def setTimeout_def clearTimeout_def emit_def
      debounceMs_def saveDrawing_eq)

subsection \<open>The handlers\<close>

lemmas handler_defs =
  todos_list_def todos_add_def todos_updateDrawing_def todos_toggleComplete_def
  todos_updateText_def todos_updateDescription_def todos_remove_def todos_moveToNextDay_def
  documents_list_def documents_get_def documents_create_def documents_update_def
  documents_remove_def documents_updateDrawing_def

section \<open>The change detector and the save path\<close>

text \<open>
  C1, as the code has it. A save attempt whose serialization succeeds dispatches a write
  exactly when the fresh snapshot differs from \<open>snapshotRef\<close>, the remembered last-persisted
  value, and then remembers the snapshot. So of two consecutive save attempts whose stores
  serialize to the same string the second never writes: the two together dispatch one
  write when the remembered value differed before the first, and none otherwise.
\<close>

theorem save_writes_iff_changed:
  assumes "editor s = Some e" and "stringify cd e = Inr snapshot"
    and "stringify cd e' = Inr snapshot"
  shows "writes (history (saveDrawing cd s)) =
           writes (history s) @
             (if Some snapshot \<noteq> snapshotRef s then [(entityId s, snapshot)] else [])
       \<and> snapshotRef (saveDrawing cd s) = Some snapshot
       \<and> writes (history (saveDrawing cd ((saveDrawing cd s)\<lparr>editor := Some e'\<rparr>))) =
           writes (history (saveDrawing cd s))"
  using assms by (simp add: saveDrawing_eq writes_append)

text \<open>
  The fresh session \<open>demoSession\<close>: the first of two save attempts on the blank store writes,
  the second does not.
\<close>

theorem save_writes_iff_changed_witness:
  "editor demoSession = Some ''blank'' \<and> stringify demoCodec ''blank'' = Inr ''blank''
   \<and> writes (history (saveDrawing demoCodec demoSession)) = [(10, ''blank'')]
   \<and> writes (history (saveDrawing demoCodec
         ((saveDrawing demoCodec demoSession)\<lparr>editor := Some ''blank''\<rparr>))) = [(10, ''blank'')]"
proof -
  have a: "editor demoSession = Some ''blank''"
    by (simp add: demoSession_eq)
  have b: "stringify demoCodec ''blank'' = Inr ''blank''"
    by (simp add: demoCodec_def)
  from save_writes_iff_changed [OF a b b] a b show ?thesis
    by (simp add: demoSession_eq)
qed

text \<open>
  C1 as stated fails: in \<open>demoSaved\<close> the blank store has been saved by the first tick of
  the interval. The ticks at 6000 and 9000 are two consecutive save attempts on the same
  serialized state, and they dispatch no write, not one.
\<close>

theorem two_saves_one_write_counterexample:
  "serializations (history (run demoCodec demoSaved [(6000, IntervalTick), (9000, IntervalTick)]))
     = serializations (history demoSaved) @ [Inr ''blank'', Inr ''blank'']
   \<and> writes (history (run demoCodec demoSaved [(6000, IntervalTick), (9000, IntervalTick)]))
       = writes (history demoSaved)
   \<and> length (writes (history
         (run demoCodec demoSaved [(6000, IntervalTick), (9000, IntervalTick)])))
       \<noteq> length (writes (history demoSaved)) + 1"
  by (simp add: demoSaved_eq demoCodec_def deliver_def advance_def step_def saveDrawing_eq)

text \<open>
  C7. When the serialization of the editor state throws, \<open>saveDrawing\<close> returns normally
  with the failure logged and nothing else changed: no write is dispatched and
  \<open>snapshotRef\<close> keeps its value.
\<close>

theorem save_serialization_failure:
  assumes "editor s = Some e" and "stringify cd e = Inl err"
  shows "saveDrawing cd s =
           s\<lparr>history := history s @
                [Stringified (Inl err), ConsoleError ''Failed to save drawing:'' err]\<rparr>
       \<and> writes (history (saveDrawing cd s)) = writes (history s)
       \<and> snapshotRef (saveDrawing cd s) = snapshotRef s"
  using assms by (simp add: saveDrawing_eq writes_append)

text \<open>
  \<open>demoCyclic\<close> holds a store whose serialization throws; a save attempt on it logs the
  failure and writes nothing.
\<close>

theorem save_serialization_failure_witness:
  "editor demoCyclic = Some ''cyclic''
   \<and> stringify demoCodec ''cyclic'' = Inl (Exn ''TypeError'')
   \<and> saveDrawing demoCodec demoCyclic =
       demoCyclic\<lparr>history := [SetTimeout 2 310, Stringified (Inl (Exn ''TypeError'')),
                     ConsoleError ''Failed to save drawing:'' (Exn ''TypeError'')]\<rparr>
   \<and> writes (history (saveDrawing demoCodec demoCyclic)) = []
   \<and> snapshotRef (saveDrawing demoCodec demoCyclic) = None"
proof -
  have a: "editor demoCyclic = Some ''cyclic''"
    by (simp add: demoCyclic_eq)
  have b: "stringify demoCodec ''cyclic'' = Inl (Exn ''TypeError'')"
    by (simp add: demoCodec_def)
  from save_serialization_failure [OF a b] a b show ?thesis
    by (simp add: demoCyclic_eq)
qed

text \<open>
  C4. In a session, from its mounting on, as long as no serialization has succeeded
  \<open>snapshotRef\<close> is still \<^verbatim>\<open>null\<close>, so the first save attempt whose serialization succeeds
  dispatches a write, the first of the session, whatever the snapshot: also when it is the
  string \<open>drawingData\<close> that was loaded from storage.
\<close>

theorem first_serialization_always_writes:
  assumes "s = run cd (mount cd e0 ident drawingData t0) evs"
    and "\<forall>x. Inr x \<notin> set (serializations (history s))"
    and "editor s = Some e" and "stringify cd e = Inr snapshot"
  shows "snapshotRef s = None \<and> writes (history (saveDrawing cd s)) = [(ident, snapshot)]"
proof -
  have "unsaved ident s"
    unfolding assms(1) by (rule unsaved_run)
  with assms(2) have "entityId s = ident" "snapshotRef s = None" "writes (history s) = []"
    by (auto simp: unsaved_def everSerialized_def)
  with assms(3,4) show ?thesis
    by (simp add: saveDrawing_eq writes_append)
qed

text \<open>
  \<open>demoLoaded\<close> was hydrated from the stored drawing \<open>''stored''\<close>; its first save attempt
  serializes to that same string and writes it.
\<close>

theorem first_serialization_always_writes_witness:
  "demoLoaded = run demoCodec (mount demoCodec (Some ''blank'') 10 (Some ''stored'') 0)
                  [(100, LoadEffect (Some ''stored''))]
   \<and> (\<forall>x. Inr x \<notin> set (serializations (history demoLoaded)))
   \<and> editor demoLoaded = Some ''stored'' \<and> stringify demoCodec ''stored'' = Inr ''stored''
   \<and> writes (history (saveDrawing demoCodec demoLoaded)) = [(10, ''stored'')]"
proof -
  have a: "demoLoaded = run demoCodec (mount demoCodec (Some ''blank'') 10 (Some ''stored'') 0)
                  [(100, LoadEffect (Some ''stored''))]"
    by (simp only: demoLoaded_def)
  have b: "\<forall>x. Inr x \<notin> set (serializations (history demoLoaded))"
    by (simp add: demoLoaded_eq)
  have c: "editor demoLoaded = Some ''stored''"
    by (simp add: demoLoaded_eq)
  have d: "stringify demoCodec ''stored'' = Inr ''stored''"
    by (simp add: demoCodec_def)
  from first_serialization_always_writes [OF a b c d] a b c d show ?thesis
    by blast
qed

section \<open>The scheduler\<close>

text \<open>
  C2, as the code has it. Take any session, at any point of any run, with a debounced save
  pending and not yet due at time \<open>t\<close>, and unmount it at \<open>t\<close>. The cleanup runs the save
  path once, on the latest editor state, and only then clears the pending timeout; nothing
  happens in the session afterwards, so the cleared timeout never fires. The teardown
  dispatches at most one write: one, of the latest state, when that state serializes and
  its snapshot differs from \<open>snapshotRef\<close>, and none otherwise.
\<close>

theorem teardown_flushes_then_cancels:
  assumes "s = run cd (mount cd e0 ident drawingData t0) evs"
    and "(h, due) \<in> set (timeouts s)" and "t < due"
  shows "\<exists>e. editor s = Some e
       \<and> history (deliver cd (t, Unmount) s) = history (saveDrawing cd s) @ [ClearTimeout h]
       \<and> serializations (history (deliver cd (t, Unmount) s)) =
           serializations (history s) @ [stringify cd e]
       \<and> writes (history (deliver cd (t, Unmount) s)) =
           writes (history s) @
             (case stringify cd e of
                Inl err \<Rightarrow> []
              | Inr snapshot \<Rightarrow>
                  if Some snapshot \<noteq> snapshotRef s then [(ident, snapshot)] else [])
       \<and> timeouts (deliver cd (t, Unmount) s) = []
       \<and> (\<forall>later. history (run cd (deliver cd (t, Unmount) s) later) =
                     history (deliver cd (t, Unmount) s))"
proof -
  have ok: "timersOk s"
    unfolding assms(1) by (rule timersOk_run)
  have "unsaved ident s"
    unfolding assms(1) by (rule unsaved_run)
  then have ident: "entityId s = ident"
    by (simp add: unsaved_def)
  note pending = timersOk_pending [OF ok assms(2)]
  from pending(6) obtain e where e: "editor s = Some e"
    by auto
  have idle: "advance cd t s = s\<lparr>clock := max (clock s) t\<rparr>"
    by (rule advance_idle) (simp add: pending(1) assms(3))
  let ?s' = "deliver cd (t, Unmount) s"
  have s': "?s' =
      (clearTimeout h (saveDrawing cd (s\<lparr>clock := max (clock s) t, listening := False\<rparr>)))
        \<lparr>intervalId := None, mounted := False\<rparr>"
    using pending
    by (simp add: deliver_def idle step_def unmount_def listenCleanup_def intervalCleanup_def
        saveDrawing_frame Let_def)
  have hist: "history ?s' = history (saveDrawing cd s) @ [ClearTimeout h]"
    by (simp add: s' clearTimeout_def emit_def saveDrawing_update)
  have gone: "timeouts ?s' = []" "\<not> mounted ?s'"
    using pending(1) by (simp_all add: s' clearTimeout_def emit_def saveDrawing_frame)
  have "\<forall>later. history (run cd ?s' later) = history ?s'"
    using run_unmounted [OF gone(2) gone(1)] by blast
  with e hist gone(1) ident show ?thesis
    by (auto simp: serializations_append writes_append saveDrawing_serializations
        saveDrawing_writes simp del: run.simps)
qed


text \<open>
  \<open>demoEdited\<close> has an edit pending since time \<open>10\<close>; unmounted at \<open>100\<close> it writes the edited
  state and then clears the timeout.
\<close>

theorem teardown_flushes_then_cancels_witness:
  "demoEdited = run demoCodec (mount demoCodec (Some ''blank'') 10 None 0) [(10, Change ''a'')]
   \<and> (2, 310) \<in> set (timeouts demoEdited) \<and> (100::nat) < 310
   \<and> history (deliver demoCodec (100, Unmount) demoEdited) =
       [SetTimeout 2 310, Stringified (Inr ''a''), ConsoleLog ''Saving drawing'',
        UpdateDrawing 10 ''a'', ClearTimeout 2]
   \<and> writes (history (deliver demoCodec (100, Unmount) demoEdited)) = [(10, ''a'')]
   \<and> timeouts (deliver demoCodec (100, Unmount) demoEdited) = []"
proof -
  have a: "demoEdited =
      run demoCodec (mount demoCodec (Some ''blank'') 10 None 0) [(10, Change ''a'')]"
    by (simp only: demoEdited_def demoSession_def)
  have b: "(2, 310) \<in> set (timeouts demoEdited)"
    by (simp add: demoEdited_eq)
  have c: "(100::nat) < 310"
    by simp
  have d: "editor demoEdited = Some ''a''" "stringify demoCodec ''a'' = Inr ''a''"
    "snapshotRef demoEdited = None" "history demoEdited = [SetTimeout 2 310]"
    "entityId demoEdited = 10"
    by (simp_all add: demoEdited_eq demoCodec_def)
  from teardown_flushes_then_cancels [OF a b c] d a b c show ?thesis
    by (auto simp: saveDrawing_eq)
qed

text \<open>
  C2 as stated fails: in \<open>demoPending\<close> the edit of time \<open>2900\<close> is still waiting for its
  timeout, due at \<open>3200\<close>, and the tick of the interval at \<open>3000\<close> has already saved it.
  Unmounting at \<open>3100\<close> runs the save path on the latest state, and no write results.
\<close>

theorem teardown_one_write_counterexample:
  "(2, 3200) \<in> set (timeouts demoPending)
   \<and> fired (history demoPending) = []
   \<and> editor (deliver demoCodec (3100, Unmount) demoPending) = Some ''a''
   \<and> writes (history (deliver demoCodec (3100, Unmount) demoPending))
       = writes (history demoPending)
   \<and> length (writes (history (deliver demoCodec (3100, Unmount) demoPending)))
       \<noteq> length (writes (history demoPending)) + 1"
  by (simp add: demoPending_eq demoCodec_def deliver_def advance_def step_def unmount_def
      listenCleanup_def intervalCleanup_def clearTimeout_def emit_def saveDrawing_eq)

text \<open>
  C3. Take a mounted session with an editor, at any point of any run, and a burst: an edit
  at time \<open>t1\<close> and then events \<open>evs\<close>, edits and ticks of the interval, each less than the
  debounce delay of 300 ms after the edit before it. The first edit replaces whatever
  timeout was pending by a new one; during the burst no timeout callback runs; at its end
  the editor holds the state of the last edit and exactly one timeout is pending, due
  300 ms after the last edit. When time reaches that point the callback runs, once, and
  its save attempt serializes the state of the last edit.
\<close>

theorem debounce_coalesces_burst:
  assumes "s0 = run cd (mount cd e0 ident drawingData t0) pre"
    and "mounted s0" and "editor s0 \<noteq> None" and "clock s0 \<le> t1"
    and "burst t1 t1 evs"
    and "s = run cd s0 ((t1, Change e1) # evs)"
  shows "timeouts (deliver cd (t1, Change e1) s0) = [(Suc (lastHandle s0), t1 + debounceMs)]
       \<and> fired (history s) = fired (history (advance cd t1 s0))
       \<and> editor s = Some (snd (lastEdit (t1, e1) evs))
       \<and> (\<exists>h. timeouts s = [(h, fst (lastEdit (t1, e1) evs) + debounceMs)]
            \<and> (\<forall>T \<ge> fst (lastEdit (t1, e1) evs) + debounceMs.
                 fired (history (advance cd T s)) = fired (history s) @ [h]
               \<and> serializations (history (advance cd T s)) =
                   serializations (history s) @ [stringify cd (snd (lastEdit (t1, e1) evs))]
               \<and> timeouts (advance cd T s) = []))"
proof -
  have ok0: "timersOk s0"
    unfolding assms(1) by (rule timersOk_run)
  note a = advance_frame [OF ok0, of cd t1]
  let ?a = "advance cd t1 s0"
  let ?s1 = "deliver cd (t1, Change e1) s0"
  from a assms(2,3) have live: "mounted ?a" "editor ?a \<noteq> None" "listening ?a"
    by (auto simp: timersOk_def)
  from live obtain e where e: "editor ?a = Some e"
    by auto
  have s1: "timeouts ?s1 = [(Suc (lastHandle s0), t1 + debounceMs)]" "editor ?s1 = Some e1"
    "clock ?s1 = t1" "fired (history ?s1) = fired (history ?a)"
    using live e a assms(4) handleChange_replaces [of ?a e1]
    by (simp_all add: deliver_def step_def)
  have ok1: "timersOk ?s1"
    using ok0 by (rule timersOk_deliver)
  have s: "s = run cd ?s1 evs"
    by (simp add: assms(6))
  from burst_run [OF ok1 s1(1,2) _ assms(5), of cd] s1(3,4)
  obtain h where fin: "timersOk s" "fired (history s) = fired (history ?a)"
    "editor s = Some (snd (lastEdit (t1, e1) evs))"
    "timeouts s = [(h, fst (lastEdit (t1, e1) evs) + debounceMs)]"
    unfolding s by auto
  have "fired (history (advance cd T s)) = fired (history s) @ [h]
      \<and> serializations (history (advance cd T s)) =
          serializations (history s) @ [stringify cd (snd (lastEdit (t1, e1) evs))]
      \<and> timeouts (advance cd T s) = []"
    if "fst (lastEdit (t1, e1) evs) + debounceMs \<le> T" for T
    using fin(3)
    by (simp add: advance_fire [OF fin(4) that] debounceCallback_def emit_def saveDrawing_frame
        saveDrawing_fired saveDrawing_serializations fired_append serializations_append
        saveDrawing_eq split: sum.splits)
  with s1(1) fin show ?thesis
    by blast
qed


text \<open>
  Edits at \<open>2900\<close>, \<open>3100\<close> and \<open>3350\<close> with the tick of the interval at \<open>3000\<close> between them: one
  timeout, with handle \<open>4\<close>, is pending at the end, due at \<open>3650\<close>; it fires once and
  serializes the last state.
\<close>

theorem debounce_coalesces_burst_witness:
  "demoSession = run demoCodec (mount demoCodec (Some ''blank'') 10 None 0) []
   \<and> mounted demoSession \<and> editor demoSession \<noteq> None \<and> clock demoSession \<le> 2900
   \<and> burst 2900 2900 demoBurst
   \<and> demoBurstEnd = run demoCodec demoSession ((2900, Change ''a'') # demoBurst)
   \<and> lastEdit (2900, ''a'') demoBurst = (3350, ''abc'')
   \<and> timeouts demoBurstEnd = [(4, 3650)]
   \<and> fired (history demoBurstEnd) = []
   \<and> fired (history (advance demoCodec 3650 demoBurstEnd)) = [4]
   \<and> serializations (history (advance demoCodec 3650 demoBurstEnd)) =
       [Inr ''a'', Inr ''abc'']"
proof -
  have a: "demoSession = run demoCodec (mount demoCodec (Some ''blank'') 10 None 0) []"
    by (simp add: demoSession_def)
  have b: "mounted demoSession" and c: "editor demoSession \<noteq> None"
    and d: "clock demoSession \<le> 2900"
    by (simp_all add: demoSession_eq)
  have e: "burst 2900 2900 demoBurst"
    by (simp add: demoBurst_def debounceMs_def)
  have f: "demoBurstEnd = run demoCodec demoSession ((2900, Change ''a'') # demoBurst)"
    by (simp only: demoBurstEnd_def)
  have g: "lastEdit (2900, ''a'') demoBurst = (3350, ''abc'')"
    by (simp add: demoBurst_def)
  have h: "timeouts demoBurstEnd = [(4, 3650)]"
    "serializations (history demoBurstEnd) = [Inr ''a'']"
    by (simp_all add: demoBurstEnd_eq)
  have i: "fired (history (advance demoCodec 2900 demoSession)) = []"
    by (simp add: demoSession_eq advance_def)
  from debounce_coalesces_burst [OF a b c d e f] g h i
  have "fired (history demoBurstEnd) = []"
    and "\<forall>T \<ge> 3650. fired (history (advance demoCodec T demoBurstEnd)) = [4]
          \<and> serializations (history (advance demoCodec T demoBurstEnd)) =
              [Inr ''a'', stringify demoCodec ''abc'']"
    by (auto simp: debounceMs_def)
  with a b c d e f g h show ?thesis
    by (simp add: demoCodec_def)
qed

section \<open>The load path\<close>

text \<open>
  C8. When parsing the stored snapshot throws, a run of the load effect returns normally
  and changes nothing of the session but its log. So mounting the drawing component on
  such a snapshot returns normally: the failure is logged (an empty string is not even
  tried), the editor keeps the empty store \<open>fresh\<close> it was created with, and the session is
  live, with its listeners and its interval. The views around it render the text fields of the entity as they
  would for any other drawing: the title and the markdown content of the document, and
  the checkbox, the text and the description of the todo.
\<close>

theorem corrupt_snapshot_isolated:
  assumes "jsonParse cd dat = Inl err"
  shows "(loadEffect cd (Some dat) s)\<lparr>history := history s\<rparr> = s
       \<and> mount cd (Some fresh) ident (Some dat) start =
           \<lparr>editor = Some fresh, entityId = ident, debounceTimerRef = None, initialLoadRef = False,
            snapshotRef = None, mounted = True, listening = True, intervalId = Some 1,
            clock = start, timeouts = [], lastHandle = 1,
            history = (if dat = [] then []
                       else [ConsoleLog ''Loading drawing data'',
                             ConsoleError ''Failed to load drawing:'' err])\<rparr>
       \<and> (doc_drawing d = Some dat \<longrightarrow>
            DocumentEditor cd (Some fresh) start (Some d) True =
              Some \<lparr>titleInput = title d,
                    markdown = (case content d of None \<Rightarrow> [] | Some c \<Rightarrow> c),
                    drawingPanel = Some (mount cd (Some fresh) (doc_id d) (Some dat) start)\<rparr>)
       \<and> (todo_drawing t = Some dat \<longrightarrow>
            TodoItem cd (Some fresh) start editingId editText expandedTodo (Some (todo_id t)) t =
              \<lparr>checkbox = completed t,
               label = (if editingId = Some (todo_id t) then editText else text t),
               descriptionEditor =
                 (if expandedTodo = Some (todo_id t)
                  then Some (case description t of None \<Rightarrow> [] | Some c \<Rightarrow> c) else None),
               todoDrawingPanel = Some (mount cd (Some fresh) (todo_id t) (Some dat) start)\<rparr>)"
  using assms
  by (simp add: mount_def intervalEffect_def listenEffect_def loadEffect_eq DocumentEditor_def
      TodoItem_def split: option.splits)

text \<open>The document and the todo of user \<open>1\<close> with the stored drawing \<open>''{''\<close>.\<close>

theorem corrupt_snapshot_isolated_witness:
  "jsonParse demoCodec ''{'' = Inl (Exn ''SyntaxError'')
   \<and> doc_drawing demoCorruptDocument = Some ''{''
   \<and> todo_drawing demoCorruptTodo = Some ''{''
   \<and> editor (mount demoCodec (Some ''blank'') 20 (Some ''{'') 0) = Some ''blank''
   \<and> DocumentEditor demoCodec (Some ''blank'') 0 (Some demoCorruptDocument) True =
       Some \<lparr>titleInput = ''notes'', markdown = ''hello'',
             drawingPanel = Some (mount demoCodec (Some ''blank'') 20 (Some ''{'') 0)\<rparr>
   \<and> TodoItem demoCodec (Some ''blank'') 0 None [] (Some 10) (Some 10) demoCorruptTodo =
       \<lparr>checkbox = False, label = ''buy milk'', descriptionEditor = Some [],
        todoDrawingPanel = Some (mount demoCodec (Some ''blank'') 10 (Some ''{'') 0)\<rparr>"
proof -
  have a: "jsonParse demoCodec ''{'' = Inl (Exn ''SyntaxError'')"
    by (simp add: demoCodec_def)
  have b: "doc_drawing demoCorruptDocument = Some ''{''"
    "todo_drawing demoCorruptTodo = Some ''{''"
    by (simp_all add: demoCorruptDocument_def demoCorruptTodo_def)
  have c: "title demoCorruptDocument = ''notes''" "content demoCorruptDocument = Some ''hello''"
    "doc_id demoCorruptDocument = 20" "todo_id demoCorruptTodo = 10"
    "completed demoCorruptTodo = False" "text demoCorruptTodo = ''buy milk''"
    "description demoCorruptTodo = Some []"
    by (simp_all add: demoCorruptDocument_def demoCorruptTodo_def demoDocument_def demoTodo_def)
  from corrupt_snapshot_isolated
    [OF a, where d = demoCorruptDocument and t = demoCorruptTodo and fresh = "''blank''"
       and start = 0 and ident = 20 and editingId = None and editText = "[]"
       and expandedTodo = "Some 10"] a b c
  show ?thesis
    by simp
qed

text \<open>
  C9. Along every run of a session the editor is hydrated at most once, and
  \<open>initialLoadRef\<close> is set exactly when it has been. Once the flag is set, a run of the load
  effect changes nothing, whatever the stored snapshot; in particular a second run after a
  run that hydrated is a no-op.
\<close>

theorem hydrated_at_most_once:
  assumes "s = run cd (mount cd e0 ident drawingData t0) evs"
  shows "length (hydrations (history s)) \<le> 1
       \<and> (initialLoadRef s \<longleftrightarrow> hydrations (history s) \<noteq> [])
       \<and> (initialLoadRef s \<longrightarrow> loadEffect cd dd s = s \<and> step cd (LoadEffect dd) s = s)
       \<and> (initialLoadRef (loadEffect cd dd s) \<longrightarrow>
            loadEffect cd dd (loadEffect cd dd s) = loadEffect cd dd s)"
proof -
  have "hydratedOnce s"
    unfolding assms by (rule hydratedOnce_run)
  then have "length (hydrations (history s)) \<le> 1"
    and "initialLoadRef s \<longleftrightarrow> hydrations (history s) \<noteq> []"
    by (auto simp: hydratedOnce_def split: if_splits)
  then show ?thesis
    by (simp add: loadEffect_loaded step_def)
qed

text \<open>
  \<open>demoLoaded\<close> ran the load effect twice on the stored drawing \<open>''stored''\<close>: it was hydrated
  once, and a further run leaves it as it is.
\<close>

theorem hydrated_at_most_once_witness:
  "demoLoaded = run demoCodec (mount demoCodec (Some ''blank'') 10 (Some ''stored'') 0)
                  [(100, LoadEffect (Some ''stored''))]
   \<and> initialLoadRef demoLoaded
   \<and> hydrations (history demoLoaded) = [''stored'']
   \<and> loadEffect demoCodec (Some ''stored'') demoLoaded = demoLoaded"
proof -
  have a: "demoLoaded = run demoCodec (mount demoCodec (Some ''blank'') 10 (Some ''stored'') 0)
                  [(100, LoadEffect (Some ''stored''))]"
    by (simp only: demoLoaded_def)
  have b: "initialLoadRef demoLoaded" "hydrations (history demoLoaded) = [''stored'']"
    by (simp_all add: demoLoaded_eq)
  from hydrated_at_most_once [OF a, of "Some ''stored''"] a b show ?thesis
    by blast
qed

text \<open>
  C10. Take a session with an editor, a non-empty stored snapshot and the flag unset. If
  parsing the snapshot throws, the flag stays unset and every further run of the load
  effect on the same snapshot attempts the hydration again: \<open>n\<close> runs log the attempt and
  its failure \<open>n\<close> times. A second run is a no-op exactly when the first one hydrated.
\<close>

theorem failed_hydration_retries:
  assumes "editor s = Some e" and "dat \<noteq> []" and "\<not> initialLoadRef s"
  shows "(jsonParse cd dat = Inl err \<longrightarrow>
            (loadEffect cd (Some dat) ^^ n) s =
              s\<lparr>history := history s @
                   concat (replicate n [ConsoleLog ''Loading drawing data'',
                                        ConsoleError ''Failed to load drawing:'' err])\<rparr>)
       \<and> (loadEffect cd (Some dat) (loadEffect cd (Some dat) s) = loadEffect cd (Some dat) s
            \<longleftrightarrow> initialLoadRef (loadEffect cd (Some dat) s))"
proof -
  let ?once = "loadEffect cd (Some dat) s"
  have "loadEffect cd (Some dat) ?once = ?once \<longleftrightarrow> initialLoadRef ?once"
  proof (cases "initialLoadRef ?once")
    case True
    then show ?thesis by (simp add: loadEffect_loaded)
  next
    case False
    from loadEffect_retry_grows [OF assms(1,2) False]
    have "loadEffect cd (Some dat) ?once \<noteq> ?once" by auto
    with False show ?thesis by simp
  qed
  then show ?thesis
    using assms loadEffect_parse_fails_funpow [of s e dat cd err n] by blast
qed

text \<open>
  \<open>demoCorrupt\<close> was mounted on the unparsable snapshot \<open>''{''\<close>: two more runs of the load
  effect log two more failed attempts, and the flag is still unset.
\<close>

theorem failed_hydration_retries_witness:
  "editor demoCorrupt = Some ''blank'' \<and> ''{'' \<noteq> [] \<and> \<not> initialLoadRef demoCorrupt
   \<and> jsonParse demoCodec ''{'' = Inl (Exn ''SyntaxError'')
   \<and> history ((loadEffect demoCodec (Some ''{'') ^^ 2) demoCorrupt) =
       history demoCorrupt @
         [ConsoleLog ''Loading drawing data'',
          ConsoleError ''Failed to load drawing:'' (Exn ''SyntaxError''),
          ConsoleLog ''Loading drawing data'',
          ConsoleError ''Failed to load drawing:'' (Exn ''SyntaxError'')]
   \<and> \<not> initialLoadRef (loadEffect demoCodec (Some ''{'') demoCorrupt)
   \<and> loadEffect demoCodec (Some ''{'') (loadEffect demoCodec (Some ''{'') demoCorrupt)
       \<noteq> loadEffect demoCodec (Some ''{'') demoCorrupt"
proof -
  have a: "editor demoCorrupt = Some ''blank''" and b: "''{'' \<noteq> []"
    and c: "\<not> initialLoadRef demoCorrupt"
    by (simp_all add: demoCorrupt_eq)
  have d: "jsonParse demoCodec ''{'' = Inl (Exn ''SyntaxError'')"
    by (simp add: demoCodec_def)
  have e: "\<not> initialLoadRef (loadEffect demoCodec (Some ''{'') demoCorrupt)"
    by (simp add: loadEffect_eq demoCorrupt_eq demoCodec_def)
  from failed_hydration_retries [OF a b c, of demoCodec "Exn ''SyntaxError''" 2] d
  have "(loadEffect demoCodec (Some ''{'') ^^ 2) demoCorrupt =
          demoCorrupt\<lparr>history := history demoCorrupt @
             concat (replicate 2 [ConsoleLog ''Loading drawing data'',
                       ConsoleError ''Failed to load drawing:'' (Exn ''SyntaxError'')])\<rparr>"
    and "loadEffect demoCodec (Some ''{'') (loadEffect demoCodec (Some ''{'') demoCorrupt)
           = loadEffect demoCodec (Some ''{'') demoCorrupt
         \<longleftrightarrow> initialLoadRef (loadEffect demoCodec (Some ''{'') demoCorrupt)"
    by blast+
  with a b c d e show ?thesis
    by (simp add: numeral_2_eq_2)
qed

section \<open>The entity operations\<close>

text \<open>
  C5, as the code has it. Without an identity every entity operation but \<^verbatim>\<open>todos.list\<close>
  throws "Not authenticated" before any call on the store, and \<^verbatim>\<open>todos.list\<close> returns the
  empty list, also before any call on the store: the store, with its log of reads and
  writes, is returned as it was.
\<close>

theorem unauthenticated_fails_closed:
  "authUserId c = None \<Longrightarrow>
   handle c req d =
     (if req = TodosList then Inr (TodoRows []) else Inl NotAuthenticated, d)"
  by (cases req) (simp_all add: handler_defs returning_def)

text \<open>The two drawing writes, without an identity, on the store \<open>demoDb\<close>.\<close>

theorem unauthenticated_fails_closed_witness:
  "authUserId anonymous = None
   \<and> handle anonymous (TodosUpdateDrawing 10 ''new'') demoDb = (Inl NotAuthenticated, demoDb)
   \<and> handle anonymous (DocumentsUpdateDrawing 20 ''new'') demoDb
       = (Inl NotAuthenticated, demoDb)"
  using unauthenticated_fails_closed [of anonymous "TodosUpdateDrawing 10 ''new''" demoDb]
    unauthenticated_fails_closed [of anonymous "DocumentsUpdateDrawing 20 ''new''" demoDb]
  by (simp add: anonymous_def)

text \<open>
  C5 as stated fails for \<^verbatim>\<open>todos.list\<close>: without an identity it does not fail with an
  authorization error, it returns normally.
\<close>

theorem unauthenticated_todos_list_counterexample:
  "fst (handle anonymous TodosList demoDb) \<noteq> Inl NotAuthenticated
   \<and> fst (handle anonymous TodosList demoDb) = Inr (TodoRows [])"
  by (simp add: anonymous_def todos_list_def returning_def)

text \<open>
  C6. A signed-in caller \<open>u\<close> who calls \<^verbatim>\<open>todos.updateDrawing\<close> or
  \<^verbatim>\<open>documents.updateDrawing\<close> on an entity that another user owns gets an error, "Todo not
  found" or "Unauthorized", and the handler has only read by then: the rows of the store
  are the rows it had, and its log has grown by the reads alone, with no patch.
\<close>

theorem updateDrawing_rejects_foreign_owner:
  assumes "authUserId c = Some u"
  shows "(find (\<lambda>t. todo_id t = i) (todos d) = Some t \<and> todo_userId t \<noteq> u \<longrightarrow>
            todos_updateDrawing c i drawing d =
              (Inl TodoNotFound, d\<lparr>oplog := oplog d @ [Get Todos i]\<rparr>))
       \<and> (find (\<lambda>x. doc_id x = i) (documents d) = Some x \<and> doc_userId x \<noteq> u \<longrightarrow>
            documents_updateDrawing c i drawing d =
              (Inl Unauthorized, d\<lparr>oplog := oplog d @ [Get Documents i, Get Users u]\<rparr>))"
  using assms
  by (auto simp: todos_updateDrawing_def documents_updateDrawing_def getTodo_def getDocument_def
      getUser_def logOp_def split: option.splits dest: find_Some_iff[THEN iffD1])

text \<open>User \<open>2\<close> on the todo and on the document of user \<open>1\<close>.\<close>

theorem updateDrawing_rejects_foreign_owner_witness:
  "authUserId (asUser 2) = Some 2
   \<and> find (\<lambda>t. todo_id t = 10) (todos demoDb) = Some demoTodo \<and> todo_userId demoTodo \<noteq> 2
   \<and> todos_updateDrawing (asUser 2) 10 ''new'' demoDb
       = (Inl TodoNotFound, demoDb\<lparr>oplog := [Get Todos 10]\<rparr>)
   \<and> find (\<lambda>x. doc_id x = 20) (documents demoDb) = Some demoDocument
   \<and> doc_userId demoDocument \<noteq> 2
   \<and> documents_updateDrawing (asUser 2) 20 ''new'' demoDb
       = (Inl Unauthorized, demoDb\<lparr>oplog := [Get Documents 20, Get Users 2]\<rparr>)"
proof -
  have a: "authUserId (asUser 2) = Some 2"
    by (simp add: asUser_def)
  have b: "find (\<lambda>t. todo_id t = 10) (todos demoDb) = Some demoTodo \<and> todo_userId demoTodo \<noteq> 2"
    by (simp add: demoDb_def demoTodo_def)
  have c: "find (\<lambda>x. doc_id x = 20) (documents demoDb) = Some demoDocument
           \<and> doc_userId demoDocument \<noteq> 2"
    by (simp add: demoDb_def demoDocument_def)
  have e: "oplog demoDb = []"
    by (simp add: demoDb_def)
  from updateDrawing_rejects_foreign_owner
    [OF a, where i = 10 and d = demoDb and t = demoTodo and drawing = "''new''"] b
  have "todos_updateDrawing (asUser 2) 10 ''new'' demoDb
          = (Inl TodoNotFound, demoDb\<lparr>oplog := oplog demoDb @ [Get Todos 10]\<rparr>)"
    by blast
  moreover
  from updateDrawing_rejects_foreign_owner
    [OF a, where i = 20 and d = demoDb and x = demoDocument and drawing = "''new''"] c
  have "documents_updateDrawing (asUser 2) 20 ''new'' demoDb
          = (Inl Unauthorized, demoDb\<lparr>oplog := oplog demoDb @ [Get Documents 20, Get Users 2]\<rparr>)"
    by blast
  ultimately show ?thesis
    using a b c e by simp
qed

end
